theory Spec2Isabelle
  imports Main "HOL-Library.Sublist" "HOL-Library.AList"
begin

section \<open>Conda manifests: \<^verbatim>\<open>src/packagedcode/conda.py\<close>\<close>

text \<open>
  The module reads two kinds of Conda files. A recipe (\<^verbatim>\<open>meta.yaml\<close>) is first passed
  through a crude, line-oriented template pass (\<^verbatim>\<open>get_variables\<close>,
  \<^verbatim>\<open>get_meta_yaml_data\<close>) and its scoped requirement lists are then parsed by
  \<^verbatim>\<open>CondaMetaYamlHandler.parse\<close>. An environment file is parsed by
  \<^verbatim>\<open>get_conda_yaml_dependencies\<close>.

  Strings are \<^typ>\<open>string\<close>, one \<^typ>\<open>char\<close> per character of the decoded text:
  the model covers text whose characters have code points below 256, with the whitespace
  and the letter case Python gives them. A file is the text the source gets from
  \<^verbatim>\<open>io.open\<close>, after newline translation, so a line ends with the character
  \<open>CHR 0x0A\<close>. The YAML loader and the requirement-line parser of \<^verbatim>\<open>dparse2\<close> are
  not part of the module: they are parameters. The \<^verbatim>\<open>PackageURL\<close> class of the
  \<^verbatim>\<open>packageurl\<close> library is not part of it either: the model has what the module's
  control flow depends on, the refusal of an empty name, the attribute \<^verbatim>\<open>name\<close> that
  line 235 reads back and the failure of \<^verbatim>\<open>to_string\<close> on a missing name, and the
  attribute \<^verbatim>\<open>version\<close>, which decides whether a package URL has a version. The
  mappings and lists of a loaded document have the shape the module expects: requirement
  lists are lists of strings.
\<close>

subsection \<open>The string methods the module calls\<close>

text \<open>
  \<open>split_at sep s\<close> finds the leftmost occurrence of \<open>sep\<close> in \<open>s\<close> and returns
  the text before it and the text after it, as \<^verbatim>\<open>str.find\<close> followed by two slices.
\<close>

fun split_at :: "string \<Rightarrow> string \<Rightarrow> (string \<times> string) option" where
  "split_at sep [] = (if sep = [] then Some ([], []) else None)"
| "split_at sep (c # cs) =
     (if prefix sep (c # cs) then Some ([], drop (length sep) (c # cs))
      else map_option (\<lambda>(b, a). (c # b, a)) (split_at sep cs))"

text \<open>\<^verbatim>\<open>sub in s\<close>, \<^verbatim>\<open>s.startswith(p)\<close> and \<^verbatim>\<open>s.endswith(p)\<close>.\<close>

definition py_in :: "string \<Rightarrow> string \<Rightarrow> bool" where
  "py_in sub s = (split_at sub s \<noteq> None)"

definition startswith :: "string \<Rightarrow> string \<Rightarrow> bool" where
  "startswith s p = prefix p s"

definition endswith :: "string \<Rightarrow> string \<Rightarrow> bool" where
  "endswith s p = prefix (rev p) (rev s)"

text \<open>\<^verbatim>\<open>s.partition(sep)\<close>: a triple; the whole string and two empty ones when
  \<open>sep\<close> does not occur.\<close>

definition py_partition :: "string \<Rightarrow> string \<Rightarrow> string \<times> string \<times> string" where
  "py_partition sep s =
     (case split_at sep s of None \<Rightarrow> (s, [], []) | Some (b, a) \<Rightarrow> (b, sep, a))"

lemma split_at_Some: "split_at sep s = Some (b, a) \<Longrightarrow> s = b @ sep @ a"
proof (induction s arbitrary: b)
  case Nil
  then show ?case by (simp split: if_splits)
next
  case (Cons c cs)
  show ?case
  proof (cases "prefix sep (c # cs)")
    case True
    then obtain r where r: "c # cs = sep @ r" by (auto simp: prefix_def)
    from True Cons.prems have "b = []" "a = drop (length sep) (c # cs)" by simp_all
    with r show ?thesis by simp
  next
    case False
    with Cons.prems obtain b' where "split_at sep cs = Some (b', a)" "b = c # b'"
      by (auto split: prod.splits)
    with Cons.IH show ?thesis by simp
  qed
qed

lemma split_at_shorter: "sep \<noteq> [] \<Longrightarrow> split_at sep s = Some (b, a) \<Longrightarrow> length a < length s"
  by (drule split_at_Some) (simp add: length_greater_0_conv [symmetric] del: length_greater_0_conv)

text \<open>
  \<^verbatim>\<open>s.split(sep)\<close> and \<^verbatim>\<open>s.replace(old, new)\<close> cut at every occurrence, leftmost
  first, never overlapping. Every separator and pattern the module passes is non-empty
  (a literal, or a literal around a variable name); for the empty one \<^verbatim>\<open>split\<close> raises
  in Python and \<^verbatim>\<open>replace\<close> inserts between all characters, which the module never
  reaches, and the model returns the string unsplit and unchanged there.
\<close>

function py_split :: "string \<Rightarrow> string \<Rightarrow> string list" where
  "py_split sep s =
     (if sep = [] then [s]
      else (case split_at sep s of None \<Rightarrow> [s] | Some (b, a) \<Rightarrow> b # py_split sep a))"
  by pat_completeness auto
termination
  by (relation "measure (\<lambda>(sep, s). length s)") (auto simp: split_at_shorter)

function py_replace :: "string \<Rightarrow> string \<Rightarrow> string \<Rightarrow> string" where
  "py_replace old new s =
     (if old = [] then s
      else (case split_at old s of
              None \<Rightarrow> s
            | Some (b, a) \<Rightarrow> b @ new @ py_replace old new a))"
  by pat_completeness auto
termination
  by (relation "measure (\<lambda>(old, new, s). length s)") (auto simp: split_at_shorter)

declare py_split.simps [simp del] py_replace.simps [simp del]

text \<open>\<^verbatim>\<open>s.strip()\<close> removes leading and trailing whitespace; \<^verbatim>\<open>s.lstrip(chars)\<close>,
  \<^verbatim>\<open>s.rstrip(chars)\<close> and \<^verbatim>\<open>s.strip(chars)\<close> remove leading (trailing) characters
  that belong to the set \<open>chars\<close>, not a prefix.\<close>

definition isspace :: "char \<Rightarrow> bool" where
  "isspace c = (c \<in> set [CHR 0x09, CHR 0x0A, CHR 0x0B, CHR 0x0C, CHR 0x0D,
                          CHR 0x1C, CHR 0x1D, CHR 0x1E, CHR 0x1F, CHR 0x20,
                          CHR 0x85, CHR 0xA0])"

definition lstrip_chars :: "string \<Rightarrow> string \<Rightarrow> string" where
  "lstrip_chars chars s = dropWhile (\<lambda>c. c \<in> set chars) s"

definition rstrip_chars :: "string \<Rightarrow> string \<Rightarrow> string" where
  "rstrip_chars chars s = rev (dropWhile (\<lambda>c. c \<in> set chars) (rev s))"

definition strip_chars :: "string \<Rightarrow> string \<Rightarrow> string" where
  "strip_chars chars s = rstrip_chars chars (lstrip_chars chars s)"

definition py_lstrip :: "string \<Rightarrow> string" where
  "py_lstrip s = dropWhile isspace s"

definition py_strip :: "string \<Rightarrow> string" where
  "py_strip s = rev (dropWhile isspace (rev (dropWhile isspace s)))"

text \<open>\<^verbatim>\<open>s.lower()\<close>: the capitals \<open>A\<close> to \<open>Z\<close>, and those of the upper half of the
  code points below 256 (\<open>0xC0\<close> to \<open>0xDE\<close> but the multiplication sign \<open>0xD7\<close>), go
  32 code points up.\<close>

definition capitals :: "char list" where
  "capitals = ''ABCDEFGHIJKLMNOPQRSTUVWXYZ'' @
     [CHR 0xC0, CHR 0xC1, CHR 0xC2, CHR 0xC3, CHR 0xC4, CHR 0xC5, CHR 0xC6, CHR 0xC7,
      CHR 0xC8, CHR 0xC9, CHR 0xCA, CHR 0xCB, CHR 0xCC, CHR 0xCD, CHR 0xCE, CHR 0xCF,
      CHR 0xD0, CHR 0xD1, CHR 0xD2, CHR 0xD3, CHR 0xD4, CHR 0xD5, CHR 0xD6, CHR 0xD8,
      CHR 0xD9, CHR 0xDA, CHR 0xDB, CHR 0xDC, CHR 0xDD, CHR 0xDE]"

definition small_letters :: "char list" where
  "small_letters = ''abcdefghijklmnopqrstuvwxyz'' @
     [CHR 0xE0, CHR 0xE1, CHR 0xE2, CHR 0xE3, CHR 0xE4, CHR 0xE5, CHR 0xE6, CHR 0xE7,
      CHR 0xE8, CHR 0xE9, CHR 0xEA, CHR 0xEB, CHR 0xEC, CHR 0xED, CHR 0xEE, CHR 0xEF,
      CHR 0xF0, CHR 0xF1, CHR 0xF2, CHR 0xF3, CHR 0xF4, CHR 0xF5, CHR 0xF6, CHR 0xF8,
      CHR 0xF9, CHR 0xFA, CHR 0xFB, CHR 0xFC, CHR 0xFD, CHR 0xFE]"

definition lower_char :: "char \<Rightarrow> char" where
  "lower_char c = (case map_of (zip capitals small_letters) c of None \<Rightarrow> c | Some l \<Rightarrow> l)"

definition lower :: "string \<Rightarrow> string" where
  "lower s = map lower_char s"

text \<open>\<^verbatim>\<open>sep.join(parts)\<close>.\<close>

fun py_join :: "string \<Rightarrow> string list \<Rightarrow> string" where
  "py_join sep [] = []"
| "py_join sep [x] = x"
| "py_join sep (x # y # ys) = x @ sep @ py_join sep (y # ys)"

text \<open>Iterating over an open text file, and \<^verbatim>\<open>readlines()\<close>: the lines of the text,
  each with its terminating newline; the last line may lack one.\<close>

fun readlines :: "string \<Rightarrow> string list" where
  "readlines [] = []"
| "readlines (c # cs) =
     (if c = CHR 0x0A then [c] # readlines cs
      else (case readlines cs of
              [] \<Rightarrow> [c] # []
            | l # ls \<Rightarrow> (c # l) # ls))"

text \<open>A line that ends with its newline; every line of a file but the last does.\<close>

definition ends_line :: "string \<Rightarrow> bool" where
  "ends_line l = (l \<noteq> [] \<and> last l = CHR 0x0A)"

subsection \<open>Variable declarations: \<^verbatim>\<open>get_variables\<close>\<close>

text \<open>
  The test both passes apply to a stripped line:
  \<^verbatim>\<open>line.startswith('{%') and line.endswith('%}') and '=' in line\<close>.
\<close>

definition is_declaration :: "string \<Rightarrow> bool" where
  "is_declaration line =
     (startswith line ''{%'' \<and> endswith line ''%}'' \<and> py_in ''='' line)"

text \<open>
  The result is a Python \<^verbatim>\<open>dict\<close>, which keeps its keys in the order of their first
  insertion and is later iterated in that order: an association list, written with
  \<^const>\<open>AList.update\<close>. One declaration line stores
  \<^verbatim>\<open>result[parts[0].strip()] = parts[-1].strip().strip('"')\<close>,
  where \<^verbatim>\<open>parts\<close> is the stripped text cut at every \<^verbatim>\<open>=\<close>
  (a \<^verbatim>\<open>split\<close> never returns the empty list).
\<close>

definition declaration_body :: "string \<Rightarrow> string" where
  "declaration_body line =
     py_lstrip (lstrip_chars ''set'' (py_strip (rstrip_chars ''%}'' (lstrip_chars ''{%'' line))))"

definition declare_variable :: "string \<Rightarrow> (string \<times> string) list \<Rightarrow> (string \<times> string) list" where
  "declare_variable line result =
     (let parts = py_split ''='' (declaration_body line)
      in AList.update (py_strip (hd parts)) (strip_chars [CHR 0x22] (py_strip (last parts))) result)"

fun get_variables_loop :: "(string \<times> string) list \<Rightarrow> string list \<Rightarrow> (string \<times> string) list" where
  "get_variables_loop result [] = result"
| "get_variables_loop result (line # lines) =
     (if line = [] then get_variables_loop result lines
      else if is_declaration (py_strip line)
        then get_variables_loop (declare_variable (py_strip line) result) lines
        else get_variables_loop result lines)"

definition get_variables :: "string \<Rightarrow> (string \<times> string) list" where
  "get_variables text = get_variables_loop [] (readlines text)"

text \<open>The key a declaration line stores under.\<close>

definition declared_name :: "string \<Rightarrow> string" where
  "declared_name line = py_strip (hd (py_split ''='' (declaration_body (py_strip line))))"

subsection \<open>Template resolution: \<^verbatim>\<open>get_meta_yaml_data\<close>\<close>

text \<open>
  The two forms of a reference to a variable, \<^verbatim>\<open>'{{ ' + variable + ' }}'\<close> and
  \<^verbatim>\<open>'{{ ' + variable + '|lower' + ' }}'\<close>, and the body of the loop over
  \<^verbatim>\<open>variables.items()\<close>: the test for \<^verbatim>\<open>|lower\<close> is made on the line as it stands when
  the variable's turn comes, and chooses which of the two forms that turn replaces.
\<close>

definition reference :: "string \<Rightarrow> string" where
  "reference variable = ''{{ '' @ variable @ '' }}''"

definition lower_reference :: "string \<Rightarrow> string" where
  "lower_reference variable = ''{{ '' @ variable @ ''|lower'' @ '' }}''"

definition replace_variable :: "string \<Rightarrow> string \<times> string \<Rightarrow> string" where
  "replace_variable line item =
     (case item of (variable, val) \<Rightarrow>
        if py_in ''|lower'' line
        then py_replace (lower_reference variable) (lower val) line
        else py_replace (reference variable) val line)"

definition substitute :: "(string \<times> string) list \<Rightarrow> string \<Rightarrow> string" where
  "substitute variables line =
     (if py_in ''{{'' line \<and> py_in ''}}'' line then foldl replace_variable line variables
      else line)"

fun yaml_lines :: "(string \<times> string) list \<Rightarrow> string list \<Rightarrow> string list" where
  "yaml_lines variables [] = []"
| "yaml_lines variables (line # lines) =
     (if line = [] then yaml_lines variables lines
      else if is_declaration (py_strip line) then yaml_lines variables lines
      else substitute variables line # yaml_lines variables lines)"

definition cleaned_yaml_lines :: "string list \<Rightarrow> string list" where
  "cleaned_yaml_lines lines = filter (\<lambda>line. \<not> py_in ''{{'' line) lines"

text \<open>The text handed to the YAML loader, for a variable table and a file's text, and
  the whole function, with the loader as a parameter.\<close>

definition cleaned_yaml :: "(string \<times> string) list \<Rightarrow> string \<Rightarrow> string" where
  "cleaned_yaml variables text =
     py_join [] (cleaned_yaml_lines (yaml_lines variables (readlines text)))"

definition get_meta_yaml_data :: "(string \<Rightarrow> 'yaml) \<Rightarrow> string \<Rightarrow> 'yaml" where
  "get_meta_yaml_data saneyaml_load text = saneyaml_load (cleaned_yaml (get_variables text) text)"

subsection \<open>Dependency records\<close>

text \<open>
  The exceptions the two parsers can raise: unpacking a \<^verbatim>\<open>split\<close> that did not give
  exactly two parts and a package URL without a name (\<^verbatim>\<open>ValueError\<close>), reading a local
  variable that no assignment has reached (\<^verbatim>\<open>UnboundLocalError\<close>), and joining the
  parts of a package URL whose name is missing (\<^verbatim>\<open>TypeError\<close>).
\<close>

datatype error = ValueError | UnboundLocalError | TypeError

definition unpack2 :: "string list \<Rightarrow> error + string \<times> string" where
  "unpack2 parts = (case parts of [a, b] \<Rightarrow> Inr (a, b) | _ \<Rightarrow> Inl ValueError)"

text \<open>
  \<^verbatim>\<open>PackageURL(type, namespace, name, version)\<close>: the record holds the four arguments
  the module passes. The constructor refuses an empty type or name with
  \<^verbatim>\<open>ValueError\<close>. \<^verbatim>\<open>models.DependentPackage\<close> has the fields the module sets.
\<close>

record PackageURL =
  purl_type :: string
  purl_namespace :: "string option"
  purl_name :: string
  purl_version :: "string option"

record DependentPackage =
  purl :: PackageURL
  extracted_requirement :: "string option"
  scope :: string
  is_runtime :: bool
  is_optional :: bool
  is_pinned :: bool
  is_direct :: bool

definition package_url ::
  "string \<Rightarrow> string option \<Rightarrow> string \<Rightarrow> string option \<Rightarrow> error + PackageURL" where
  "package_url ptype namespace name version =
     (if ptype = [] \<or> name = [] then Inl ValueError
      else Inr \<lparr>purl_type = ptype, purl_namespace = namespace, purl_name = name,
                purl_version = version\<rparr>)"

text \<open>
  The attributes of the object are normalised from the arguments. The name
  (\<^verbatim>\<open>purl.name\<close>) is stripped of surrounding whitespace, then of surrounding slashes;
  for four types, \<^verbatim>\<open>pypi\<close> among them, it is lower-cased, and for \<^verbatim>\<open>pypi\<close> its
  underscores become hyphens. The version is stripped of surrounding whitespace. An
  empty result is a missing attribute: the empty string for the name here, \<open>None\<close> for
  the version. The module passes the literal types \<^verbatim>\<open>conda\<close> and \<^verbatim>\<open>pypi\<close>, which the
  class keeps as they are; it never reads the namespace back.
\<close>

definition lowercase_types :: "string list" where
  "lowercase_types = [''bitbucket'', ''github'', ''pypi'', ''gitlab'']"

definition normalized_name :: "PackageURL \<Rightarrow> string" where
  "normalized_name p =
     (let stripped = strip_chars ''/'' (py_strip (purl_name p));
          cased = (if purl_type p \<in> set lowercase_types then lower stripped else stripped)
      in if purl_type p = ''pypi'' then py_replace ''_'' ''-'' cased else cased)"

definition normalized_version :: "PackageURL \<Rightarrow> string option" where
  "normalized_version p =
     (case purl_version p of
        None \<Rightarrow> None
      | Some version \<Rightarrow> if py_strip version = [] then None else Some (py_strip version))"

text \<open>
  \<^verbatim>\<open>purl.to_string()\<close> joins the normalised parts and raises \<^verbatim>\<open>TypeError\<close> when the
  name is missing. The string is a function of the object, which stands for it in a
  dependency.
\<close>

definition to_string :: "PackageURL \<Rightarrow> error + PackageURL" where
  "to_string p = (if normalized_name p = [] then Inl TypeError else Inr p)"

definition reserved :: "string \<Rightarrow> bool" where
  "reserved name = (name \<in> set [''pip'', ''python''])"

subsection \<open>Recipe requirements: \<^verbatim>\<open>CondaMetaYamlHandler.parse\<close>\<close>

text \<open>
  One requirement of a scope, lines 128 to 143: the name part and the requirement
  expression are cut at the first space; a requirement that starts with \<^verbatim>\<open>==\<close> gives
  the version; a name part with \<^verbatim>\<open>::\<close> carries a namespace; a name with \<^verbatim>\<open>=\<close> carries
  a pinned version, which replaces the version and the requirement expression.
\<close>

record requirement =
  req_name :: string
  req_namespace :: "string option"
  req_version :: "string option"
  req_requirement :: string
  req_pinned :: bool

definition exact_version :: "string \<Rightarrow> error + string option" where
  "exact_version requirement =
     (if startswith requirement ''==''
      then (case unpack2 (py_split ''=='' requirement) of
              Inl e \<Rightarrow> Inl e
            | Inr (_, version) \<Rightarrow> Inr (Some version))
      else Inr None)"

definition split_namespace :: "string \<Rightarrow> error + string option \<times> string" where
  "split_namespace name =
     (if py_in ''::'' name
      then (case unpack2 (py_split ''::'' name) of
              Inl e \<Rightarrow> Inl e
            | Inr (namespace, name') \<Rightarrow> Inr (Some namespace, name'))
      else Inr (None, name))"

definition split_requirement :: "string \<Rightarrow> error + requirement" where
  "split_requirement req =
     (case py_partition '' '' req of (name, _, requirement) \<Rightarrow>
       (case exact_version requirement of
          Inl e \<Rightarrow> Inl e
        | Inr version \<Rightarrow>
           (case split_namespace name of
              Inl e \<Rightarrow> Inl e
            | Inr (namespace, name') \<Rightarrow>
                if py_in ''='' name'
                then (case unpack2 (py_split ''='' name') of
                        Inl e \<Rightarrow> Inl e
                      | Inr (name'', version') \<Rightarrow>
                          Inr \<lparr>req_name = name'', req_namespace = namespace,
                               req_version = Some version',
                               req_requirement = ''='' @ version', req_pinned = True\<rparr>)
                else Inr \<lparr>req_name = name', req_namespace = namespace, req_version = version,
                          req_requirement = requirement, req_pinned = False\<rparr>)))"

text \<open>
  The rest of the loop body, lines 145 to 175, on the pair of \<^verbatim>\<open>dependencies\<close> and
  \<^verbatim>\<open>extra_data\<close>. \<^verbatim>\<open>extra_data\<close> is a \<^verbatim>\<open>dict\<close> from scope names to lists of raw
  requirements; \<^verbatim>\<open>cls.default_package_type\<close> is \<^verbatim>\<open>'conda'\<close>. The test of line 145 is
  on the name as parsed, before any package URL is built; the package URL is built at
  line 152 and turned into its string at line 167.
\<close>

type_synonym package_state = "DependentPackage list \<times> (string \<times> string list) list"

definition requirement_purl :: "requirement \<Rightarrow> error + PackageURL" where
  "requirement_purl r =
     (case package_url ''conda'' (req_namespace r) (req_name r) (req_version r) of
        Inl e \<Rightarrow> Inl e
      | Inr p \<Rightarrow> to_string p)"

definition requirement_package :: "string \<Rightarrow> requirement \<Rightarrow> PackageURL \<Rightarrow> DependentPackage" where
  "requirement_package scope_name r p =
     \<lparr>purl = p,
      extracted_requirement = Some (req_requirement r),
      scope = scope_name,
      is_runtime = py_in ''run'' scope_name,
      is_optional = (\<not> py_in ''run'' scope_name),
      is_pinned = req_pinned r,
      is_direct = True\<rparr>"

definition add_requirement :: "string \<Rightarrow> package_state \<Rightarrow> string \<Rightarrow> error + package_state" where
  "add_requirement scope_name state req =
     (case state of (dependencies, extra_data) \<Rightarrow>
      (case split_requirement req of
        Inl e \<Rightarrow> Inl e
      | Inr r \<Rightarrow>
          if reserved (req_name r)
          then Inr (dependencies,
                 (case map_of extra_data scope_name of
                    None \<Rightarrow> AList.update scope_name [req] extra_data
                  | Some reqs \<Rightarrow> AList.update scope_name (reqs @ [req]) extra_data))
          else (case requirement_purl r of
                  Inl e \<Rightarrow> Inl e
                | Inr p \<Rightarrow>
                    Inr (dependencies @ [requirement_package scope_name r p], extra_data))))"

fun add_requirements :: "string \<Rightarrow> package_state \<Rightarrow> string list \<Rightarrow> error + package_state" where
  "add_requirements scope_name state [] = Inr state"
| "add_requirements scope_name state (req # reqs) =
     (case add_requirement scope_name state req of
        Inl e \<Rightarrow> Inl e
      | Inr state' \<Rightarrow> add_requirements scope_name state' reqs)"

fun add_scopes :: "package_state \<Rightarrow> (string \<times> string list) list \<Rightarrow> error + package_state" where
  "add_scopes state [] = Inr state"
| "add_scopes state ((scope_name, reqs) # requirements) =
     (case add_requirements scope_name state reqs of
        Inl e \<Rightarrow> Inl e
      | Inr state' \<Rightarrow> add_scopes state' requirements)"

text \<open>
  The \<^verbatim>\<open>dependencies\<close> and the \<^verbatim>\<open>extra_data\<close> of the package data that
  \<^verbatim>\<open>CondaMetaYamlHandler.parse\<close> yields, from the \<^verbatim>\<open>requirements\<close> mapping of the
  loaded recipe: the scopes in the order of the mapping, each with its list of
  requirement strings.
\<close>

definition parse :: "(string \<times> string list) list \<Rightarrow> error + package_state" where
  "parse requirements = add_scopes ([], []) requirements"

text \<open>The test of line 145 as a predicate of the raw requirement, and the list a scope
  has in \<^verbatim>\<open>extra_data\<close> (empty when the scope is not a key).\<close>

definition held_back :: "string \<Rightarrow> bool" where
  "held_back req = (case split_requirement req of Inl e \<Rightarrow> False | Inr r \<Rightarrow> reserved (req_name r))"

definition held_requirements :: "(string \<times> string list) list \<Rightarrow> string \<Rightarrow> string list" where
  "held_requirements extra_data scope_name =
     (case map_of extra_data scope_name of None \<Rightarrow> [] | Some reqs \<Rightarrow> reqs)"

text \<open>The dependencies a scope's requirements give when none of them raises: one for
  each requirement that is not held back, in the order of the list.\<close>

definition kept_package :: "string \<Rightarrow> string \<Rightarrow> DependentPackage" where
  "kept_package sc req =
     (let r = projr (split_requirement req)
      in requirement_package sc r (projr (requirement_purl r)))"

definition kept_packages :: "string \<Rightarrow> string list \<Rightarrow> DependentPackage list" where
  "kept_packages sc reqs = map (kept_package sc) (filter (\<lambda>req. \<not> held_back req) reqs)"

subsection \<open>Environment dependencies: \<^verbatim>\<open>get_conda_yaml_dependencies\<close>\<close>

text \<open>
  \<^verbatim>\<open>parse_requirement_line\<close> of \<^verbatim>\<open>dparse2\<close> is a parameter: it returns nothing, or
  an object of which the module reads \<^verbatim>\<open>name\<close> and \<^verbatim>\<open>str(specs)\<close>. An entry of the
  dependency list is a string, a mapping (of which only the key \<^verbatim>\<open>pip\<close> is read) or
  anything else, which both \<^verbatim>\<open>isinstance\<close> tests pass over.

  The local variable \<^verbatim>\<open>version\<close> is assigned under \<^verbatim>\<open>if req:\<close> and under
  \<^verbatim>\<open>if "=" in dep:\<close> only, and is read when neither holds: it is unbound until the
  first assignment and keeps its value from one entry to the next, so it is part of the
  loop's state. It is read when the arguments of \<^verbatim>\<open>PackageURL\<close> are evaluated, before
  the constructor looks at the name.
\<close>

record Dependency =
  dep_name :: string
  dep_specs :: string

datatype dependency_entry = Str string | Dict "(string \<times> string list) list" | Other

datatype 'a local_variable = Unbound | Bound 'a

definition pypi_version :: "string \<Rightarrow> string option" where
  "pypi_version specs = (if py_in ''=='' specs then Some (py_replace ''=='' [] specs) else None)"

definition dependent_package :: "PackageURL \<Rightarrow> string option \<Rightarrow> bool \<Rightarrow> DependentPackage" where
  "dependent_package p specs pinned =
     \<lparr>purl = p, extracted_requirement = specs, scope = ''dependencies'', is_runtime = True,
      is_optional = False, is_pinned = pinned, is_direct = True\<rparr>"

text \<open>Lines 214 to 221 and 254 to 261: the package URL of a line that the requirement
  parser accepted.\<close>

definition pypi_purl :: "Dependency \<Rightarrow> error + PackageURL" where
  "pypi_purl req = package_url ''pypi'' None (dep_name req) (pypi_version (dep_specs req))"

text \<open>Lines 262 to 272: a line of a \<^verbatim>\<open>pip\<close> list gives a dependency whatever its name.\<close>

definition pypi_package :: "Dependency \<Rightarrow> error + DependentPackage" where
  "pypi_package req =
     (case pypi_purl req of
        Inl e \<Rightarrow> Inl e
      | Inr p \<Rightarrow>
         (case to_string p of
            Inl e \<Rightarrow> Inl e
          | Inr s \<Rightarrow> Inr (dependent_package s (Some (dep_specs req)) (py_in ''=='' (dep_specs req)))))"

text \<open>Lines 235 to 248: a string entry gives no dependency when the attribute
  \<^verbatim>\<open>purl.name\<close> is a reserved name.\<close>

definition unless_reserved ::
  "PackageURL \<Rightarrow> string option \<Rightarrow> bool \<Rightarrow> error + DependentPackage list" where
  "unless_reserved p specs pinned =
     (if reserved (normalized_name p) then Inr []
      else (case to_string p of
              Inl e \<Rightarrow> Inl e
            | Inr s \<Rightarrow> Inr [dependent_package s specs pinned]))"

definition channel_namespace :: "string \<Rightarrow> error + string option \<times> string" where
  "channel_namespace dep =
     (if py_in ''::'' dep
      then (case unpack2 (py_split ''::'' dep) of
              Inl e \<Rightarrow> Inl e
            | Inr (namespace, dep') \<Rightarrow>
                Inr (if py_in ''/'' namespace \<or> py_in '':'' namespace then None
                     else Some namespace,
                     dep'))
      else Inr (None, dep))"

text \<open>Lines 221 to 233: the package URL of a string entry, with the value \<^verbatim>\<open>version\<close>
  has afterwards.\<close>

definition string_purl ::
  "(string \<Rightarrow> Dependency option) \<Rightarrow> string option local_variable \<Rightarrow> string option \<Rightarrow> string \<Rightarrow>
     error + string option \<times> PackageURL \<times> string option \<times> bool" where
  "string_purl parse_requirement_line version namespace dep =
     (case parse_requirement_line dep of
        Some req \<Rightarrow>
          (case pypi_purl req of
             Inl e \<Rightarrow> Inl e
           | Inr p \<Rightarrow>
               Inr (pypi_version (dep_specs req), p, Some (dep_specs req),
                    py_in ''=='' (dep_specs req)))
      | None \<Rightarrow>
          if py_in ''='' dep
          then (case unpack2 (py_split ''='' dep) of
                  Inl e \<Rightarrow> Inl e
                | Inr (dep', version') \<Rightarrow>
                   (case package_url ''conda'' namespace dep' (Some version') of
                      Inl e \<Rightarrow> Inl e
                    | Inr p \<Rightarrow> Inr (Some version', p, Some (''='' @ version'), True)))
          else (case version of
                  Unbound \<Rightarrow> Inl UnboundLocalError
                | Bound version' \<Rightarrow>
                   (case package_url ''conda'' namespace dep version' of
                      Inl e \<Rightarrow> Inl e
                    | Inr p \<Rightarrow> Inr (version', p, None, False))))"

definition string_dependency ::
  "(string \<Rightarrow> Dependency option) \<Rightarrow> string option local_variable \<Rightarrow> string \<Rightarrow>
     error + string option local_variable \<times> DependentPackage list" where
  "string_dependency parse_requirement_line version dep =
     (case channel_namespace dep of
        Inl e \<Rightarrow> Inl e
      | Inr (namespace, dep') \<Rightarrow>
         (case string_purl parse_requirement_line version namespace dep' of
            Inl e \<Rightarrow> Inl e
          | Inr (version', p, specs, pinned) \<Rightarrow>
             (case unless_reserved p specs pinned of
                Inl e \<Rightarrow> Inl e
              | Inr new \<Rightarrow> Inr (Bound version', new))))"

fun pip_dependencies ::
  "(string \<Rightarrow> Dependency option) \<Rightarrow> string option local_variable \<Rightarrow> string list \<Rightarrow>
     error + string option local_variable \<times> DependentPackage list" where
  "pip_dependencies parse_requirement_line version [] = Inr (version, [])"
| "pip_dependencies parse_requirement_line version (line # lines) =
     (case parse_requirement_line line of
        None \<Rightarrow> pip_dependencies parse_requirement_line version lines
      | Some req \<Rightarrow>
         (case pypi_package req of
            Inl e \<Rightarrow> Inl e
          | Inr d \<Rightarrow>
             (case pip_dependencies parse_requirement_line
                     (Bound (pypi_version (dep_specs req))) lines of
                Inl e \<Rightarrow> Inl e
              | Inr (version', deps) \<Rightarrow> Inr (version', d # deps))))"

fun dependencies_loop ::
  "(string \<Rightarrow> Dependency option) \<Rightarrow> string option local_variable \<Rightarrow> dependency_entry list \<Rightarrow>
     error + DependentPackage list" where
  "dependencies_loop parse_requirement_line version [] = Inr []"
| "dependencies_loop parse_requirement_line version (Str dep # dependencies) =
     (case string_dependency parse_requirement_line version dep of
        Inl e \<Rightarrow> Inl e
      | Inr (version', new) \<Rightarrow>
          (case dependencies_loop parse_requirement_line version' dependencies of
             Inl e \<Rightarrow> Inl e
           | Inr deps \<Rightarrow> Inr (new @ deps)))"
| "dependencies_loop parse_requirement_line version (Dict dep # dependencies) =
     (case pip_dependencies parse_requirement_line version
             (case map_of dep ''pip'' of None \<Rightarrow> [] | Some lines \<Rightarrow> lines) of
        Inl e \<Rightarrow> Inl e
      | Inr (version', new) \<Rightarrow>
          (case dependencies_loop parse_requirement_line version' dependencies of
             Inl e \<Rightarrow> Inl e
           | Inr deps \<Rightarrow> Inr (new @ deps)))"
| "dependencies_loop parse_requirement_line version (Other # dependencies) =
     dependencies_loop parse_requirement_line version dependencies"

text \<open>The function, on the list under the key \<^verbatim>\<open>dependencies\<close> of the loaded
  environment file (the empty list when the key is missing or empty).\<close>

definition get_conda_yaml_dependencies ::
  "(string \<Rightarrow> Dependency option) \<Rightarrow> dependency_entry list \<Rightarrow> error + DependentPackage list" where
  "get_conda_yaml_dependencies parse_requirement_line dependencies =
     dependencies_loop parse_requirement_line Unbound dependencies"

subsection \<open>What a pinned dependency carries\<close>

text \<open>A dependency carries a version when its package URL has the attribute
  \<^verbatim>\<open>version\<close>, or when its extracted requirement is an expression \<^verbatim>\<open>=version\<close>, the
  version a text that is not blank and holds no further \<^verbatim>\<open>=\<close>.\<close>

definition carries_version :: "DependentPackage \<Rightarrow> bool" where
  "carries_version d =
     (normalized_version (purl d) \<noteq> None \<or>
      (case extracted_requirement d of
         Some (c # v) \<Rightarrow> c = CHR ''='' \<and> py_strip v \<noteq> [] \<and> CHR ''='' \<notin> set v
       | _ \<Rightarrow> False))"

section \<open>Properties\<close>

subsection \<open>Facts about the string methods\<close>

text \<open>\<^verbatim>\<open>sub in s\<close> is the contiguous-sublist relation of the library; a search skips a
  stretch of text in which no occurrence starts.\<close>

lemma split_at_None_iff: "split_at sep s = None \<longleftrightarrow> \<not> sublist sep s"
  by (induction s) (auto simp: sublist_Cons_right)

lemma py_in_sublist: "py_in sub s = sublist sub s"
  by (simp add: py_in_def split_at_None_iff)

lemma split_at_skip:
  "(\<And>i. i < length b \<Longrightarrow> \<not> prefix sep (drop i b @ rest)) \<Longrightarrow>
   split_at sep (b @ rest) = map_option (\<lambda>(x, y). (b @ x, y)) (split_at sep rest)"
proof (induction b)
  case Nil
  show ?case by (simp add: option.map_ident case_prod_unfold)
next
  case (Cons c b)
  from Cons.prems [of 0] have "\<not> prefix sep (c # b @ rest)" by simp
  moreover have "split_at sep (b @ rest) = map_option (\<lambda>(x, y). (b @ x, y)) (split_at sep rest)"
  proof (rule Cons.IH)
    fix i assume "i < length b"
    with Cons.prems [of "Suc i"] show "\<not> prefix sep (drop i b @ rest)" by simp
  qed
  ultimately show ?case by (simp add: option.map_comp comp_def case_prod_unfold)
qed

lemma split_at_here: "sep \<noteq> [] \<Longrightarrow> split_at sep (sep @ a) = Some ([], a)"
  by (cases sep) simp_all

lemma split_at_char:
  "c \<notin> set b \<Longrightarrow> split_at (c # sep) (b @ c # sep @ a) = Some (b, a)"
proof -
  assume c: "c \<notin> set b"
  have "split_at (c # sep) (b @ (c # sep) @ a)
        = map_option (\<lambda>(x, y). (b @ x, y)) (split_at (c # sep) ((c # sep) @ a))"
  proof (rule split_at_skip)
    fix i assume i: "i < length b"
    then have "drop i b \<noteq> []" by simp
    then obtain x xs where x: "drop i b = x # xs" by (cases "drop i b") auto
    then have "x \<in> set b" by (metis in_set_dropD list.set_intros(1))
    with c have "x \<noteq> c" by auto
    with x show "\<not> prefix (c # sep) (drop i b @ (c # sep) @ a)" by simp
  qed
  then show ?thesis by (simp del: split_at.simps add: split_at_here [of "c # sep", simplified])
qed

lemma py_split_notin: "\<not> py_in sep s \<Longrightarrow> py_split sep s = [s]"
proof -
  assume "\<not> py_in sep s"
  then have "split_at sep s = None" unfolding py_in_def by blast
  then show ?thesis by (subst py_split.simps) simp
qed

lemma py_replace_notin: "\<not> py_in old s \<Longrightarrow> py_replace old new s = s"
proof -
  assume "\<not> py_in old s"
  then have "split_at old s = None" unfolding py_in_def by blast
  then show ?thesis by (subst py_replace.simps) simp
qed

lemma py_split_nonempty: "py_split sep s \<noteq> []"
  by (subst py_split.simps) (simp split: option.split prod.split)

lemma unpack2_Inr: "unpack2 parts = Inr (a, b) \<longleftrightarrow> parts = [a, b]"
  by (auto simp: unpack2_def split: list.splits)

lemma py_split_two:
  assumes "sep \<noteq> []" "py_split sep s = [a, b]"
  shows "s = a @ sep @ b \<and> \<not> py_in sep b"
proof -
  from assms obtain r where r: "split_at sep s = Some (a, r)" "py_split sep r = [b]"
    by (subst (asm) py_split.simps) (auto split: option.splits)
  from r(2) assms(1) have "split_at sep r = None \<and> r = b"
    by (subst (asm) py_split.simps) (auto split: option.splits simp: py_split_nonempty)
  with r(1) show ?thesis by (auto dest: split_at_Some simp: py_in_def)
qed

lemma py_in_char: "py_in [c] s \<longleftrightarrow> c \<in> set s"
  by (induction s) (auto simp: py_in_def)

subsection \<open>Package URLs\<close>

text \<open>A package URL is built and turned into its string exactly when the name is not
  empty and does not normalise to the empty string; it then holds the arguments.\<close>

lemma package_url_Inr:
  "package_url ptype namespace name version = Inr p \<longleftrightarrow>
     ptype \<noteq> [] \<and> name \<noteq> [] \<and>
     p = \<lparr>purl_type = ptype, purl_namespace = namespace, purl_name = name, purl_version = version\<rparr>"
  by (auto simp: package_url_def)

lemma to_string_Inr: "to_string p = Inr s \<longleftrightarrow> normalized_name p \<noteq> [] \<and> s = p"
  by (auto simp: to_string_def)

lemma requirement_purl_Inr:
  "requirement_purl r = Inr p \<longleftrightarrow>
     req_name r \<noteq> [] \<and> normalized_name p \<noteq> [] \<and>
     p = \<lparr>purl_type = ''conda'', purl_namespace = req_namespace r, purl_name = req_name r,
          purl_version = req_version r\<rparr>"
  by (auto simp: requirement_purl_def package_url_def to_string_def)

lemma requirement_purl_empty: "req_name r = [] \<Longrightarrow> requirement_purl r = Inl ValueError"
  by (simp add: requirement_purl_def package_url_def)

lemma normalized_name_empty: "purl_name p = [] \<Longrightarrow> normalized_name p = []"
  by (simp add: normalized_name_def Let_def strip_chars_def lstrip_chars_def rstrip_chars_def
      py_strip_def lower_def py_replace.simps)

lemma pypi_package_Inr:
  "pypi_package req = Inr d \<longleftrightarrow>
     dep_name req \<noteq> [] \<and> normalized_name (purl d) \<noteq> [] \<and>
     d = dependent_package
           \<lparr>purl_type = ''pypi'', purl_namespace = None, purl_name = dep_name req,
            purl_version = pypi_version (dep_specs req)\<rparr>
           (Some (dep_specs req)) (py_in ''=='' (dep_specs req))"
  by (auto simp: pypi_package_def pypi_purl_def package_url_def to_string_def
      dependent_package_def)

text \<open>The names and versions of the examples below are their own normal forms; a
  capital letter or an underscore in a \<^verbatim>\<open>pypi\<close> name, and a slash around any name,
  are not.\<close>

lemma normalized_examples:
  "normalized_name \<lparr>purl_type = ''conda'', purl_namespace = ns, purl_name = ''numpy'',
     purl_version = v\<rparr> = ''numpy''"
  "normalized_name \<lparr>purl_type = ''conda'', purl_namespace = ns, purl_name = ''mccortex'',
     purl_version = v\<rparr> = ''mccortex''"
  "normalized_name \<lparr>purl_type = ''conda'', purl_namespace = ns, purl_name = ''_libgcc_mutex'',
     purl_version = v\<rparr> = ''_libgcc_mutex''"
  "normalized_name \<lparr>purl_type = ''conda'', purl_namespace = ns, purl_name = ''Python'',
     purl_version = v\<rparr> = ''Python''"
  "normalized_name \<lparr>purl_type = ''conda'', purl_namespace = ns, purl_name = ''pip/'',
     purl_version = v\<rparr> = ''pip''"
  "normalized_name \<lparr>purl_type = ''pypi'', purl_namespace = ns, purl_name = ''numpy'',
     purl_version = v\<rparr> = ''numpy''"
  "normalized_name \<lparr>purl_type = ''pypi'', purl_namespace = ns, purl_name = ''pip'',
     purl_version = v\<rparr> = ''pip''"
  "normalized_name \<lparr>purl_type = ''pypi'', purl_namespace = ns, purl_name = ''python'',
     purl_version = v\<rparr> = ''python''"
  "normalized_name \<lparr>purl_type = ''pypi'', purl_namespace = ns, purl_name = ''Python'',
     purl_version = v\<rparr> = ''python''"
  "normalized_name \<lparr>purl_type = ''pypi'', purl_namespace = ns, purl_name = ''Typing_Extensions'',
     purl_version = v\<rparr> = ''typing-extensions''"
  "normalized_version \<lparr>purl_type = t, purl_namespace = ns, purl_name = n,
     purl_version = Some ''1.15.4''\<rparr> = Some ''1.15.4''"
  "normalized_version \<lparr>purl_type = t, purl_namespace = ns, purl_name = n,
     purl_version = Some []\<rparr> = None"
  by (simp_all add: normalized_name_def normalized_version_def lowercase_types_def
      strip_chars_def lstrip_chars_def rstrip_chars_def py_strip_def isspace_def
      lower_def lower_char_def capitals_def small_letters_def py_replace.simps)

subsection \<open>Recipe requirements, one at a time\<close>

lemma py_partition_space:
  "CHR '' '' \<notin> set name \<Longrightarrow> py_partition '' '' (name @ '' '' @ rest) = (name, '' '', rest)"
  using split_at_char [of "CHR '' ''" name "[]" rest] by (simp add: py_partition_def)

lemma exact_version_eq:
  "\<not> py_in ''=='' v \<Longrightarrow> exact_version (''=='' @ v) = Inr (Some v)"
proof -
  assume v: "\<not> py_in ''=='' v"
  have "split_at ''=='' (''=='' @ v) = Some ([], v)" by (rule split_at_here) simp
  then have "py_split ''=='' (''=='' @ v) = [[], v]"
    by (subst py_split.simps) (simp del: split_at.simps add: py_split_notin [OF v])
  then show ?thesis by (simp add: exact_version_def startswith_def unpack2_def)
qed

lemma split_namespace_parts:
  assumes "split_namespace name = Inr (ns, n)"
  shows "set n \<subseteq> set name"
proof (cases "py_in ''::'' name")
  case True
  with assms obtain a where "py_split ''::'' name = [a, n]"
    by (auto simp: split_namespace_def unpack2_Inr split: sum.splits)
  then have "name = a @ ''::'' @ n" using py_split_two [of "''::''" name a n] by simp
  then show ?thesis by auto
next
  case False
  with assms show ?thesis by (simp add: split_namespace_def)
qed

lemma split_requirement_exact:
  assumes "CHR '' '' \<notin> set name" "CHR ''='' \<notin> set name" "\<not> py_in ''=='' v"
    and ns: "split_namespace name = Inr (ns, n)"
  shows "split_requirement (name @ '' =='' @ v) =
     Inr \<lparr>req_name = n, req_namespace = ns, req_version = Some v,
          req_requirement = ''=='' @ v, req_pinned = False\<rparr>"
proof -
  have p: "py_partition '' '' (name @ '' =='' @ v) = (name, '' '', ''=='' @ v)"
    using py_partition_space [OF assms(1), of "''=='' @ v"] by simp
  from split_namespace_parts [OF ns] assms(2) have "\<not> py_in ''='' n"
    by (auto simp: py_in_char)
  with p ns exact_version_eq [OF assms(3)] show ?thesis
    by (simp add: split_requirement_def)
qed

lemma pinned_iff:
  assumes "split_requirement tok = Inr r" "split_namespace (fst (py_partition '' '' tok)) = Inr (ns, n)"
  shows "req_pinned r = py_in ''='' n"
  using assms by (auto simp: split_requirement_def split: prod.splits sum.splits if_splits)

lemma split_requirement_pinned:
  assumes "split_requirement req = Inr r" "req_pinned r"
  shows "\<exists>v. CHR ''='' \<notin> set v \<and> req_version r = Some v \<and> req_requirement r = ''='' @ v"
proof -
  from assms obtain n n' v where
    s: "py_split ''='' n = [n', v]" and r: "req_version r = Some v" "req_requirement r = ''='' @ v"
    by (auto simp: split_requirement_def unpack2_Inr split: prod.splits sum.splits if_splits)
  from py_split_two [of "''=''" n n' v] s have "\<not> py_in ''='' v" by simp
  with r show ?thesis by (auto simp: py_in_char)
qed

subsection \<open>A namespaced, pinned requirement\<close>

text \<open>
  Claim C6. In a recipe scope, the requirement \<^verbatim>\<open>conda-forge::numpy=1.15.4\<close> gives one
  dependency whose package URL has the type \<^verbatim>\<open>conda\<close>, the namespace
  \<^verbatim>\<open>conda-forge\<close>, the name \<^verbatim>\<open>numpy\<close> and the version \<^verbatim>\<open>1.15.4\<close>, and which is
  pinned; nothing goes to \<^verbatim>\<open>extra_data\<close>. This holds in every scope; only the runtime
  and optional flags depend on the scope's name.
\<close>

theorem conda_forge_numpy_pinned:
  "parse [(scope_name, [''conda-forge::numpy=1.15.4''])] =
     Inr ([\<lparr>purl = \<lparr>purl_type = ''conda'', purl_namespace = Some ''conda-forge'',
                     purl_name = ''numpy'', purl_version = Some ''1.15.4''\<rparr>,
            extracted_requirement = Some ''=1.15.4'',
            scope = scope_name,
            is_runtime = py_in ''run'' scope_name,
            is_optional = (\<not> py_in ''run'' scope_name),
            is_pinned = True,
            is_direct = True\<rparr>], [])"
  by (simp add: parse_def add_requirement_def requirement_package_def split_requirement_def
      py_partition_def exact_version_def startswith_def split_namespace_def py_in_def
      unpack2_def py_split.simps reserved_def requirement_purl_def package_url_def
      to_string_def normalized_examples)

text \<open>In an environment list the same string gives the same package URL, whenever the
  requirement parser does not accept \<^verbatim>\<open>numpy=1.15.4\<close> (a single \<^verbatim>\<open>=\<close> is no
  specifier of its grammar).\<close>

lemma conda_forge_numpy_environment:
  "parse_requirement_line ''numpy=1.15.4'' = None \<Longrightarrow>
   get_conda_yaml_dependencies parse_requirement_line [Str ''conda-forge::numpy=1.15.4''] =
     Inr [dependent_package
            \<lparr>purl_type = ''conda'', purl_namespace = Some ''conda-forge'',
             purl_name = ''numpy'', purl_version = Some ''1.15.4''\<rparr>
            (Some ''=1.15.4'') True]"
  by (simp add: get_conda_yaml_dependencies_def string_dependency_def string_purl_def
      channel_namespace_def py_in_def unpack2_def py_split.simps unless_reserved_def
      reserved_def package_url_def to_string_def normalized_examples)

subsection \<open>An exact version after the space does not pin\<close>

text \<open>
  Claim C10. A requirement \<^verbatim>\<open>name ==version\<close> (the name part free of spaces and of
  \<^verbatim>\<open>=\<close>, with or without a namespace, not a reserved name; the version free of a further
  \<^verbatim>\<open>==\<close>, which would make the unpacking of line 131 raise) whose name is not empty,
  also after the class has normalised it, gives one dependency whose package URL was
  built with the version, which keeps \<^verbatim>\<open>==version\<close> as its extracted requirement and
  is not pinned. With an empty name no dependency is given: the constructor of line 152
  raises \<^verbatim>\<open>ValueError\<close>. For any requirement that gives a dependency, the dependency is
  pinned exactly when the name part, after its namespace is taken off, contains \<^verbatim>\<open>=\<close>.
\<close>

theorem exact_requirement_not_pinned:
  "(CHR '' '' \<notin> set name \<and> CHR ''='' \<notin> set name \<and> \<not> py_in ''=='' v \<and>
    split_namespace name = Inr (ns, n) \<and> \<not> reserved n \<and>
    normalized_name \<lparr>purl_type = ''conda'', purl_namespace = ns, purl_name = n,
                     purl_version = Some v\<rparr> \<noteq> [] \<longrightarrow>
    parse [(scope_name, [name @ '' =='' @ v])] =
      Inr ([\<lparr>purl = \<lparr>purl_type = ''conda'', purl_namespace = ns, purl_name = n,
                      purl_version = Some v\<rparr>,
             extracted_requirement = Some (''=='' @ v),
             scope = scope_name,
             is_runtime = py_in ''run'' scope_name,
             is_optional = (\<not> py_in ''run'' scope_name),
             is_pinned = False,
             is_direct = True\<rparr>], [])) \<and>
   (CHR '' '' \<notin> set name \<and> CHR ''='' \<notin> set name \<and> \<not> py_in ''=='' v \<and>
    split_namespace name = Inr (ns, []) \<longrightarrow>
    parse [(scope_name, [name @ '' =='' @ v])] = Inl ValueError) \<and>
   (\<forall>tok ns' n' d extra_data.
      split_namespace (fst (py_partition '' '' tok)) = Inr (ns', n') \<and>
      parse [(scope_name, [tok])] = Inr ([d], extra_data) \<longrightarrow>
      is_pinned d = py_in ''='' n')"
proof (intro conjI impI allI)
  let ?p = "\<lparr>purl_type = ''conda'', purl_namespace = ns, purl_name = n, purl_version = Some v\<rparr>"
  let ?r = "\<lparr>req_name = n, req_namespace = ns, req_version = Some v,
          req_requirement = ''=='' @ v, req_pinned = False\<rparr>"
  assume a: "CHR '' '' \<notin> set name \<and> CHR ''='' \<notin> set name \<and> \<not> py_in ''=='' v \<and>
    split_namespace name = Inr (ns, n) \<and> \<not> reserved n \<and> normalized_name ?p \<noteq> []"
  then have s: "split_requirement (name @ '' =='' @ v) = Inr ?r"
    by (intro split_requirement_exact) simp_all
  from a normalized_name_empty [of ?p] have "n \<noteq> []" by auto
  with a have "requirement_purl ?r = Inr ?p" by (simp add: requirement_purl_Inr)
  with a s show "parse [(scope_name, [name @ '' =='' @ v])] =
      Inr ([\<lparr>purl = ?p,
             extracted_requirement = Some (''=='' @ v),
             scope = scope_name,
             is_runtime = py_in ''run'' scope_name,
             is_optional = (\<not> py_in ''run'' scope_name),
             is_pinned = False,
             is_direct = True\<rparr>], [])"
    by (simp add: parse_def add_requirement_def requirement_package_def)
next
  let ?r = "\<lparr>req_name = [], req_namespace = ns, req_version = Some v,
          req_requirement = ''=='' @ v, req_pinned = False\<rparr>"
  assume a: "CHR '' '' \<notin> set name \<and> CHR ''='' \<notin> set name \<and> \<not> py_in ''=='' v \<and>
    split_namespace name = Inr (ns, [])"
  then have s: "split_requirement (name @ '' =='' @ v) = Inr ?r"
    by (intro split_requirement_exact) simp_all
  have "requirement_purl ?r = Inl ValueError" by (rule requirement_purl_empty) simp
  with s show "parse [(scope_name, [name @ '' =='' @ v])] = Inl ValueError"
    by (simp add: parse_def add_requirement_def reserved_def)
next
  fix tok ns' n' d extra_data
  assume b: "split_namespace (fst (py_partition '' '' tok)) = Inr (ns', n') \<and>
      parse [(scope_name, [tok])] = Inr ([d], extra_data)"
  then obtain r where r: "split_requirement tok = Inr r" "is_pinned d = req_pinned r"
    by (auto simp: parse_def add_requirement_def requirement_package_def
        split: sum.splits if_splits)
  with b pinned_iff [of tok r ns' n'] show "is_pinned d = py_in ''='' n'" by simp
qed

theorem exact_requirement_not_pinned_witness:
  "CHR '' '' \<notin> set ''mccortex'' \<and> CHR ''='' \<notin> set ''mccortex'' \<and> \<not> py_in ''=='' ''1.0'' \<and>
    split_namespace ''mccortex'' = Inr (None, ''mccortex'') \<and> \<not> reserved ''mccortex'' \<and>
    normalized_name \<lparr>purl_type = ''conda'', purl_namespace = None, purl_name = ''mccortex'',
                     purl_version = Some ''1.0''\<rparr> = ''mccortex'' \<and>
    parse [(''run'', [''mccortex ==1.0''])] =
      Inr ([\<lparr>purl = \<lparr>purl_type = ''conda'', purl_namespace = None, purl_name = ''mccortex'',
                      purl_version = Some ''1.0''\<rparr>,
             extracted_requirement = Some ''==1.0'',
             scope = ''run'',
             is_runtime = True,
             is_optional = False,
             is_pinned = False,
             is_direct = True\<rparr>], []) \<and>
    CHR '' '' \<notin> set ''conda-forge::'' \<and> CHR ''='' \<notin> set ''conda-forge::'' \<and>
    split_namespace ''conda-forge::'' = Inr (Some ''conda-forge'', []) \<and>
    parse [(''run'', [''conda-forge:: ==1.0''])] = Inl ValueError \<and>
    split_namespace (fst (py_partition '' '' ''conda-forge::numpy=1.15.4'')) = Inr (Some ''conda-forge'', ''numpy=1.15.4'') \<and>
    parse [(''run'', [''conda-forge::numpy=1.15.4''])] =
      Inr ([\<lparr>purl = \<lparr>purl_type = ''conda'', purl_namespace = Some ''conda-forge'',
                     purl_name = ''numpy'', purl_version = Some ''1.15.4''\<rparr>,
            extracted_requirement = Some ''=1.15.4'',
            scope = ''run'',
            is_runtime = True,
            is_optional = False,
            is_pinned = True,
            is_direct = True\<rparr>], []) \<and>
    py_in ''='' ''numpy=1.15.4''"
proof -
  have h: "CHR '' '' \<notin> set ''mccortex'' \<and> CHR ''='' \<notin> set ''mccortex'' \<and> \<not> py_in ''=='' ''1.0'' \<and>
    split_namespace ''mccortex'' = Inr (None, ''mccortex'') \<and> \<not> reserved ''mccortex''"
    by (simp add: py_in_def split_namespace_def reserved_def)
  have m: "normalized_name \<lparr>purl_type = ''conda'', purl_namespace = None, purl_name = ''mccortex'',
                     purl_version = Some ''1.0''\<rparr> = ''mccortex''"
    by (rule normalized_examples)
  have g: "CHR '' '' \<notin> set ''conda-forge::'' \<and> CHR ''='' \<notin> set ''conda-forge::'' \<and>
    split_namespace ''conda-forge::'' = Inr (Some ''conda-forge'', [])"
    by (simp add: split_namespace_def py_in_def unpack2_def py_split.simps)
  have k: "split_namespace (fst (py_partition '' '' ''conda-forge::numpy=1.15.4'')) = Inr (Some ''conda-forge'', ''numpy=1.15.4'')"
    by (simp add: py_partition_def split_namespace_def py_in_def unpack2_def py_split.simps)
  have e: "parse [(''run'', [''conda-forge::numpy=1.15.4''])] =
      Inr ([\<lparr>purl = \<lparr>purl_type = ''conda'', purl_namespace = Some ''conda-forge'',
                     purl_name = ''numpy'', purl_version = Some ''1.15.4''\<rparr>,
            extracted_requirement = Some ''=1.15.4'',
            scope = ''run'',
            is_runtime = True,
            is_optional = False,
            is_pinned = True,
            is_direct = True\<rparr>], [])"
    by (simp add: parse_def add_requirement_def requirement_package_def split_requirement_def
        py_partition_def exact_version_def startswith_def split_namespace_def py_in_def
        unpack2_def py_split.simps reserved_def requirement_purl_def package_url_def
        to_string_def normalized_examples)
  from exact_requirement_not_pinned [of "''mccortex''" "''1.0''" None "''mccortex''" "''run''"] h m k e
  have 1: "parse [(''run'', [''mccortex ==1.0''])] =
      Inr ([\<lparr>purl = \<lparr>purl_type = ''conda'', purl_namespace = None, purl_name = ''mccortex'',
                      purl_version = Some ''1.0''\<rparr>,
             extracted_requirement = Some ''==1.0'',
             scope = ''run'',
             is_runtime = True,
             is_optional = False,
             is_pinned = False,
             is_direct = True\<rparr>], []) \<and> py_in ''='' ''numpy=1.15.4''"
    by (simp add: py_in_def)
  from exact_requirement_not_pinned [of "''conda-forge::''" "''1.0''" "Some ''conda-forge''" "[]" "''run''"] g h
  have 2: "parse [(''run'', [''conda-forge:: ==1.0''])] = Inl ValueError"
    by simp
  from h m g k e 1 2 show ?thesis by simp
qed

subsection \<open>Recipe requirements, the whole mapping\<close>

text \<open>What the loops over the scopes and their requirements return, in terms of one
  requirement's parse: the dependencies are those of the requirements not held back, and
  a scope's list in \<^verbatim>\<open>extra_data\<close> grows by the held-back ones, in order.\<close>

lemma held_requirements_update:
  "held_requirements (AList.update k v al) k' = (if k' = k then v else held_requirements al k')"
  by (simp add: held_requirements_def update_conv')

lemma add_requirement_cases:
  assumes "add_requirement sc (deps, extra) req = Inr (deps', extra')"
  shows "\<exists>r. split_requirement req = Inr r \<and>
           (if reserved (req_name r)
            then deps' = deps \<and> extra' = AList.update sc (held_requirements extra sc @ [req]) extra
            else (\<exists>p. requirement_purl r = Inr p \<and> deps' = deps @ [requirement_package sc r p]) \<and>
                 extra' = extra)"
  using assms
  by (auto simp: add_requirement_def held_requirements_def split: sum.splits if_splits option.splits)

lemma add_requirements_result:
  "add_requirements sc (deps, extra) reqs = Inr (deps', extra') \<Longrightarrow>
     deps' = deps @ kept_packages sc reqs \<and>
     held_requirements extra' sc' =
       held_requirements extra sc' @ (if sc' = sc then filter held_back reqs else [])"
proof (induction reqs arbitrary: deps extra)
  case Nil
  then show ?case by (simp add: kept_packages_def)
next
  case (Cons req reqs)
  from Cons.prems obtain deps1 extra1 where
    step: "add_requirement sc (deps, extra) req = Inr (deps1, extra1)" and
    rest: "add_requirements sc (deps1, extra1) reqs = Inr (deps', extra')"
    by (auto split: sum.splits)
  from add_requirement_cases [OF step] obtain r where r: "split_requirement req = Inr r"
    and c: "if reserved (req_name r)
            then deps1 = deps \<and> extra1 = AList.update sc (held_requirements extra sc @ [req]) extra
            else (\<exists>p. requirement_purl r = Inr p \<and> deps1 = deps @ [requirement_package sc r p]) \<and>
                 extra1 = extra"
    by blast
  from r have h: "held_back req = reserved (req_name r)" by (simp add: held_back_def)
  show ?case
  proof (cases "reserved (req_name r)")
    case True
    with c Cons.IH [OF rest] show ?thesis
      by (simp add: h kept_packages_def held_requirements_update)
  next
    case False
    with c obtain p where p: "requirement_purl r = Inr p" "deps1 = deps @ [requirement_package sc r p]"
      "extra1 = extra"
      by auto
    from r p(1) have "kept_package sc req = requirement_package sc r p"
      by (simp add: kept_package_def)
    with False p Cons.IH [OF rest] show ?thesis
      by (simp add: h kept_packages_def)
  qed
qed

lemma add_scopes_result:
  "add_scopes (deps, extra) requirements = Inr (deps', extra') \<Longrightarrow>
     deps' = deps @ concat (map (\<lambda>(sc, reqs). kept_packages sc reqs) requirements) \<and>
     held_requirements extra' sc' =
       held_requirements extra sc' @
       filter held_back (concat (map snd (filter (\<lambda>entry. fst entry = sc') requirements)))"
proof (induction requirements arbitrary: deps extra)
  case Nil
  then show ?case by simp
next
  case (Cons entry requirements)
  obtain sc reqs where entry: "entry = (sc, reqs)" by (cases entry)
  with Cons.prems obtain deps1 extra1 where
    step: "add_requirements sc (deps, extra) reqs = Inr (deps1, extra1)" and
    rest: "add_scopes (deps1, extra1) requirements = Inr (deps', extra')"
    by (auto split: sum.splits)
  from add_requirements_result [OF step, of sc'] Cons.IH [OF rest] entry show ?case
    by simp
qed

lemma add_requirements_parsed:
  "add_requirements sc st reqs = Inr st' \<Longrightarrow> req \<in> set reqs \<Longrightarrow>
     \<exists>r. split_requirement req = Inr r \<and> (reserved (req_name r) \<or> (\<exists>p. requirement_purl r = Inr p))"
proof (induction reqs arbitrary: st)
  case Nil
  then show ?case by simp
next
  case (Cons a reqs)
  obtain deps extra where st: "st = (deps, extra)" by (cases st)
  from Cons.prems(1) st obtain deps1 extra1 where
    step: "add_requirement sc (deps, extra) a = Inr (deps1, extra1)" and
    rest: "add_requirements sc (deps1, extra1) reqs = Inr st'"
    by (auto split: sum.splits)
  show ?case
  proof (cases "req = a")
    case True
    from add_requirement_cases [OF step] True show ?thesis by (auto split: if_splits)
  next
    case False
    with Cons.prems(2) have "req \<in> set reqs" by simp
    from Cons.IH [OF rest this] show ?thesis .
  qed
qed

lemma kept_packages_origin:
  assumes "d \<in> set (kept_packages sc reqs)"
    "\<And>req. req \<in> set reqs \<Longrightarrow>
       \<exists>r. split_requirement req = Inr r \<and> (reserved (req_name r) \<or> (\<exists>p. requirement_purl r = Inr p))"
  shows "\<exists>req r p. req \<in> set reqs \<and> split_requirement req = Inr r \<and> \<not> reserved (req_name r) \<and>
           requirement_purl r = Inr p \<and> d = requirement_package sc r p"
proof -
  from assms(1) obtain req where req: "req \<in> set reqs" "\<not> held_back req" "d = kept_package sc req"
    by (auto simp: kept_packages_def)
  from assms(2) [OF req(1)] obtain r where
    r: "split_requirement req = Inr r" "reserved (req_name r) \<or> (\<exists>p. requirement_purl r = Inr p)"
    by blast
  from r(1) req(2) have n: "\<not> reserved (req_name r)" by (simp add: held_back_def)
  with r(2) obtain p where p: "requirement_purl r = Inr p" by blast
  with r(1) req(3) have "d = requirement_package sc r p" by (simp add: kept_package_def)
  with req(1) r(1) n p show ?thesis by blast
qed

lemma add_scopes_parsed:
  "add_scopes st requirements = Inr st' \<Longrightarrow> (sc, reqs) \<in> set requirements \<Longrightarrow> req \<in> set reqs \<Longrightarrow>
     \<exists>r. split_requirement req = Inr r \<and> (reserved (req_name r) \<or> (\<exists>p. requirement_purl r = Inr p))"
proof (induction requirements arbitrary: st)
  case Nil
  then show ?case by simp
next
  case (Cons a requirements)
  obtain sc1 reqs1 where a: "a = (sc1, reqs1)" by (cases a)
  from Cons.prems(1) a obtain st1 where
    step: "add_requirements sc1 st reqs1 = Inr st1" and
    rest: "add_scopes st1 requirements = Inr st'"
    by (auto split: sum.splits)
  show ?case
  proof (cases "(sc, reqs) = a")
    case True
    with a step Cons.prems(3) show ?thesis by (auto dest: add_requirements_parsed)
  next
    case False
    with Cons.prems(2) have "(sc, reqs) \<in> set requirements" by simp
    from Cons.IH [OF rest this Cons.prems(3)] show ?thesis .
  qed
qed

lemma parse_origin:
  assumes "parse requirements = Inr (dependencies, extra_data)" "d \<in> set dependencies"
  shows "\<exists>sc reqs req r p. (sc, reqs) \<in> set requirements \<and> req \<in> set reqs \<and>
           split_requirement req = Inr r \<and> \<not> reserved (req_name r) \<and>
           requirement_purl r = Inr p \<and> d = requirement_package sc r p"
proof -
  from assms(1) have p: "add_scopes ([], []) requirements = Inr (dependencies, extra_data)"
    by (simp add: parse_def)
  from add_scopes_result [OF p] assms(2) obtain sc reqs where
    e: "(sc, reqs) \<in> set requirements" "d \<in> set (kept_packages sc reqs)"
    by auto
  from kept_packages_origin [OF e(2)] add_scopes_parsed [OF p e(1)] e(1) show ?thesis
    by blast
qed

subsection \<open>Environment entries\<close>

text \<open>Where a dependency of the environment list comes from: a string entry's own
  result, or a line of a \<^verbatim>\<open>pip\<close> list that the requirement parser accepted. A pinned
  one was pinned by \<^verbatim>\<open>=\<close> in a string entry, or by \<^verbatim>\<open>==\<close> in a specifier.\<close>

lemma string_purl_pinned:
  assumes "string_purl p version namespace dep = Inr (version', u, specs, pinned)" "pinned"
  shows "\<exists>v. purl_version u = Some v \<and>
           (CHR ''='' \<notin> set v \<and> specs = Some (''='' @ v) \<or>
            (\<exists>s. py_in ''=='' s \<and> specs = Some s \<and> v = py_replace ''=='' [] s))"
proof (cases "p dep")
  case (Some req)
  with assms show ?thesis
    by (auto simp: string_purl_def pypi_purl_def package_url_def pypi_version_def
        split: if_splits)
next
  case None
  with assms obtain n v where
    s: "py_split ''='' dep = [n, v]" and u: "purl_version u = Some v" "specs = Some (''='' @ v)"
    by (auto simp: string_purl_def package_url_def unpack2_Inr
        split: if_splits sum.splits local_variable.splits)
  from py_split_two [of "''=''" dep n v] s have "\<not> py_in ''='' v" by simp
  with u show ?thesis by (auto simp: py_in_char)
qed

lemma string_dependency_new:
  assumes "string_dependency p version dep = Inr (version', new)" "d \<in> set new"
  shows "\<not> reserved (normalized_name (purl d)) \<and>
         (is_pinned d \<longrightarrow>
            (\<exists>v. purl_version (purl d) = Some v \<and>
               (CHR ''='' \<notin> set v \<and> extracted_requirement d = Some (''='' @ v) \<or>
                (\<exists>s. py_in ''=='' s \<and> extracted_requirement d = Some s \<and>
                      v = py_replace ''=='' [] s))))"
proof -
  from assms obtain namespace dep' v u specs pinned where
    s: "string_purl p version namespace dep' = Inr (v, u, specs, pinned)" and
    n: "unless_reserved u specs pinned = Inr new"
    by (auto simp: string_dependency_def split: sum.splits prod.splits)
  from n assms(2) have d: "\<not> reserved (normalized_name u)" "d = dependent_package u specs pinned"
    by (auto simp: unless_reserved_def to_string_def split: if_splits)
  from d(2) have f: "purl d = u" "extracted_requirement d = specs" "is_pinned d = pinned"
    by (simp_all add: dependent_package_def)
  from string_purl_pinned [OF s] d(1) show ?thesis unfolding f by blast
qed

lemma pypi_package_pinned:
  assumes "pypi_package req = Inr d" "is_pinned d"
  shows "py_in ''=='' (dep_specs req) \<and> extracted_requirement d = Some (dep_specs req) \<and>
         purl_version (purl d) = Some (py_replace ''=='' [] (dep_specs req))"
  using assms by (auto simp: pypi_package_Inr dependent_package_def pypi_version_def)

lemma pip_dependencies_origin:
  "pip_dependencies p version lines = Inr (version', deps) \<Longrightarrow> d \<in> set deps \<Longrightarrow>
     \<exists>line req. line \<in> set lines \<and> p line = Some req \<and> pypi_package req = Inr d"
proof (induction lines arbitrary: version deps)
  case Nil
  then show ?case by simp
next
  case (Cons line lines)
  show ?case
  proof (cases "p line")
    case None
    with Cons.prems have "pip_dependencies p version lines = Inr (version', deps)" by simp
    from Cons.IH [OF this Cons.prems(2)] show ?thesis by auto
  next
    case (Some req)
    with Cons.prems(1) obtain d' deps' where
      d': "pypi_package req = Inr d'" and
      r: "pip_dependencies p (Bound (pypi_version (dep_specs req))) lines = Inr (version', deps')" and
      e: "deps = d' # deps'"
      by (auto split: sum.splits)
    show ?thesis
    proof (cases "d = d'")
      case True
      with Some d' show ?thesis by auto
    next
      case False
      with e Cons.prems(2) have "d \<in> set deps'" by simp
      from Cons.IH [OF r this] show ?thesis by auto
    qed
  qed
qed

lemma dependencies_loop_Cons:
  assumes "dependencies_loop p version (e # entries) = Inr deps"
  shows "\<exists>v new rest. dependencies_loop p v entries = Inr rest \<and> deps = new @ rest \<and>
           dependencies_loop p version [e] = Inr new \<and>
           (case e of
              Str dep \<Rightarrow> string_dependency p version dep = Inr (v, new)
            | Dict m \<Rightarrow>
                pip_dependencies p version
                  (case map_of m ''pip'' of None \<Rightarrow> [] | Some lines \<Rightarrow> lines) = Inr (v, new)
            | Other \<Rightarrow> v = version \<and> new = [])"
  using assms by (cases e) (auto split: sum.splits prod.splits)

lemma dependencies_loop_origin:
  "dependencies_loop p version entries = Inr deps \<Longrightarrow> d \<in> set deps \<Longrightarrow>
     (\<exists>dep v v' new. Str dep \<in> set entries \<and> string_dependency p v dep = Inr (v', new) \<and> d \<in> set new) \<or>
     (\<exists>m lines line req. Dict m \<in> set entries \<and> map_of m ''pip'' = Some lines \<and>
        line \<in> set lines \<and> p line = Some req \<and> pypi_package req = Inr d)"
proof (induction entries arbitrary: version deps)
  case Nil
  then show ?case by simp
next
  case (Cons e entries)
  from dependencies_loop_Cons [OF Cons.prems(1)] obtain v new rest where
    l: "dependencies_loop p v entries = Inr rest" and d: "deps = new @ rest" and
    e: "case e of
              Str dep \<Rightarrow> string_dependency p version dep = Inr (v, new)
            | Dict m \<Rightarrow>
                pip_dependencies p version
                  (case map_of m ''pip'' of None \<Rightarrow> [] | Some lines \<Rightarrow> lines) = Inr (v, new)
            | Other \<Rightarrow> v = version \<and> new = []"
    by blast
  show ?case
  proof (cases "d \<in> set new")
    case False
    with d Cons.prems(2) have "d \<in> set rest" by simp
    from Cons.IH [OF l this] show ?thesis by (simp only: list.set) blast
  next
    case True
    show ?thesis
    proof (cases e)
      case (Str dep)
      with e True have "Str dep \<in> set (e # entries)"
        "string_dependency p version dep = Inr (v, new)" "d \<in> set new"
        by simp_all
      then show ?thesis by blast
    next
      case (Dict m)
      let ?lines = "case map_of m ''pip'' of None \<Rightarrow> [] | Some lines \<Rightarrow> lines"
      from Dict e have "pip_dependencies p version ?lines = Inr (v, new)" by simp
      from pip_dependencies_origin [OF this True] obtain line req where
        lr: "line \<in> set ?lines" "p line = Some req" "pypi_package req = Inr d"
        by blast
      from lr(1) obtain lines where "map_of m ''pip'' = Some lines" "line \<in> set lines"
        by (cases "map_of m ''pip''") auto
      moreover from Dict have "Dict m \<in> set (e # entries)" by simp
      ultimately show ?thesis using lr(2,3) by blast
    next
      case Other
      with e True show ?thesis by simp
    qed
  qed
qed

lemma dependencies_loop_append:
  "dependencies_loop p version (xs @ ys) = Inr deps \<Longrightarrow>
     \<exists>v out1 out2. dependencies_loop p version xs = Inr out1 \<and>
        dependencies_loop p v ys = Inr out2 \<and> deps = out1 @ out2"
proof (induction xs arbitrary: version deps)
  case Nil
  then show ?case by auto
next
  case (Cons e xs)
  from Cons.prems have "dependencies_loop p version (e # (xs @ ys)) = Inr deps" by simp
  from dependencies_loop_Cons [OF this] obtain v new rest where
    l: "dependencies_loop p v (xs @ ys) = Inr rest" and d: "deps = new @ rest" and
    n: "dependencies_loop p version [e] = Inr new" and
    e: "case e of
              Str dep \<Rightarrow> string_dependency p version dep = Inr (v, new)
            | Dict m \<Rightarrow>
                pip_dependencies p version
                  (case map_of m ''pip'' of None \<Rightarrow> [] | Some lines \<Rightarrow> lines) = Inr (v, new)
            | Other \<Rightarrow> v = version \<and> new = []"
    by blast
  from Cons.IH [OF l] obtain v' out1 out2 where
    o: "dependencies_loop p v xs = Inr out1" "dependencies_loop p v' ys = Inr out2"
       "rest = out1 @ out2"
    by blast
  from e o(1) have "dependencies_loop p version (e # xs) = Inr (new @ out1)"
    by (cases e) simp_all
  with o d show ?case by auto
qed

subsection \<open>Requirements without separators\<close>

text \<open>A recipe requirement with no space, no \<^verbatim>\<open>::\<close> and no \<^verbatim>\<open>=\<close> is parsed without an
  exception: it is its own name, and its version is unset.\<close>

lemma separator_free_requirement:
  assumes "CHR '' '' \<notin> set req" "\<not> py_in ''::'' req" "CHR ''='' \<notin> set req"
  shows "split_requirement req =
           Inr \<lparr>req_name = req, req_namespace = None, req_version = None,
                req_requirement = [], req_pinned = False\<rparr>"
proof -
  from assms(1) have "\<not> py_in '' '' req" by (simp add: py_in_char)
  then have "split_at '' '' req = None" unfolding py_in_def by blast
  then have "py_partition '' '' req = (req, [], [])" by (simp add: py_partition_def)
  moreover from assms(3) have "\<not> py_in ''='' req" by (simp add: py_in_char)
  ultimately show ?thesis using assms(2)
    by (simp add: split_requirement_def exact_version_def startswith_def split_namespace_def)
qed

text \<open>
  Claim C1 (the code departs from it). In the environment list, a string entry that
  the requirement parser does not accept and that has no \<^verbatim>\<open>=\<close> reaches line 228 with
  \<^verbatim>\<open>version\<close> never assigned when it is the first entry: the function raises
  \<^verbatim>\<open>UnboundLocalError\<close> instead of returning a dependency without a version. The
  sibling branch under \<^verbatim>\<open>if req:\<close> starts with \<^verbatim>\<open>version = None\<close>; this one lacks it.
\<close>

theorem unbound_version_raises:
  "parse_requirement_line dep = None \<Longrightarrow> \<not> py_in ''::'' dep \<Longrightarrow> \<not> py_in ''='' dep \<Longrightarrow>
     get_conda_yaml_dependencies parse_requirement_line (Str dep # dependencies) =
       Inl UnboundLocalError"
  by (simp add: get_conda_yaml_dependencies_def string_dependency_def string_purl_def
      channel_namespace_def)

theorem unbound_version_raises_witness:
  "Map.empty ''_libgcc_mutex'' = (None :: Dependency option) \<and>
   \<not> py_in ''::'' ''_libgcc_mutex'' \<and> \<not> py_in ''='' ''_libgcc_mutex'' \<and>
   get_conda_yaml_dependencies Map.empty [Str ''_libgcc_mutex''] = Inl UnboundLocalError"
proof -
  have h: "\<not> py_in ''::'' ''_libgcc_mutex''" "\<not> py_in ''='' ''_libgcc_mutex''"
    by (simp_all add: py_in_def)
  from unbound_version_raises [of Map.empty "''_libgcc_mutex''" "[]", OF _ h] h show ?thesis by simp
qed

text \<open>After an entry that assigned it, the variable still holds that entry's version,
  which the next separator-free entry then takes over.\<close>

lemma stale_version_example:
  "get_conda_yaml_dependencies Map.empty [Str ''numpy=1.15.4'', Str ''_libgcc_mutex''] =
     Inr [dependent_package \<lparr>purl_type = ''conda'', purl_namespace = None, purl_name = ''numpy'',
                             purl_version = Some ''1.15.4''\<rparr> (Some ''=1.15.4'') True,
          dependent_package \<lparr>purl_type = ''conda'', purl_namespace = None,
                             purl_name = ''_libgcc_mutex'', purl_version = Some ''1.15.4''\<rparr>
            None False]"
  by (simp add: get_conda_yaml_dependencies_def string_dependency_def string_purl_def
      channel_namespace_def py_in_def unpack2_def py_split.simps unless_reserved_def
      reserved_def package_url_def to_string_def normalized_examples)

subsection \<open>Reserved names\<close>

text \<open>
  Claim C8. A recipe requirement whose parsed name is \<^verbatim>\<open>pip\<close> or \<^verbatim>\<open>python\<close> adds no
  dependency: the raw requirement is appended to the list that \<^verbatim>\<open>extra_data\<close> holds
  for the scope. For a whole \<^verbatim>\<open>requirements\<close> mapping that parses, no dependency was
  built from a reserved name, and the list of a scope is exactly its held-back
  requirements, in their order in the recipe.
\<close>

theorem reserved_requirements_held_back:
  "(\<forall>r. split_requirement req = Inr r \<and> reserved (req_name r) \<longrightarrow>
      add_requirement scope_name (dependencies, extra_data) req =
        Inr (dependencies,
             AList.update scope_name (held_requirements extra_data scope_name @ [req]) extra_data)) \<and>
   (\<forall>deps extra. parse requirements = Inr (deps, extra) \<longrightarrow>
      (\<forall>d \<in> set deps. \<not> reserved (purl_name (purl d))) \<and>
      (\<forall>sc. held_requirements extra sc =
         filter held_back (concat (map snd (filter (\<lambda>entry. fst entry = sc) requirements)))))"
proof (intro conjI allI impI ballI)
  fix r assume "split_requirement req = Inr r \<and> reserved (req_name r)"
  then show "add_requirement scope_name (dependencies, extra_data) req =
        Inr (dependencies,
             AList.update scope_name (held_requirements extra_data scope_name @ [req]) extra_data)"
    by (simp add: add_requirement_def held_requirements_def split: option.splits)
next
  fix deps extra d
  assume "parse requirements = Inr (deps, extra)" "d \<in> set deps"
  from parse_origin [OF this] show "\<not> reserved (purl_name (purl d))"
    by (auto simp: requirement_package_def requirement_purl_Inr)
next
  fix deps extra sc
  assume "parse requirements = Inr (deps, extra)"
  then have "add_scopes ([], []) requirements = Inr (deps, extra)" by (simp add: parse_def)
  from add_scopes_result [OF this, of sc]
  show "held_requirements extra sc =
         filter held_back (concat (map snd (filter (\<lambda>entry. fst entry = sc) requirements)))"
    by (simp add: held_requirements_def)
qed

theorem reserved_requirements_held_back_witness:
  "split_requirement ''python >=3.6'' =
     Inr \<lparr>req_name = ''python'', req_namespace = None, req_version = None,
          req_requirement = ''>=3.6'', req_pinned = False\<rparr> \<and>
   reserved ''python'' \<and>
   add_requirement ''run'' ([], [(''run'', [''pip''])]) ''python >=3.6'' =
     Inr ([], [(''run'', [''pip'', ''python >=3.6''])]) \<and>
   parse [(''run'', [''numpy'', ''python >=3.6'', ''pip'']), (''build'', [''python''])] =
     Inr ([\<lparr>purl = \<lparr>purl_type = ''conda'', purl_namespace = None, purl_name = ''numpy'',
                     purl_version = None\<rparr>,
            extracted_requirement = Some [], scope = ''run'', is_runtime = True,
            is_optional = False, is_pinned = False, is_direct = True\<rparr>],
          [(''run'', [''python >=3.6'', ''pip'']), (''build'', [''python''])]) \<and>
   \<not> reserved ''numpy'' \<and>
   held_requirements [(''run'', [''python >=3.6'', ''pip'']), (''build'', [''python''])] ''run'' =
     [''python >=3.6'', ''pip'']"
proof -
  have s: "split_requirement ''python >=3.6'' =
     Inr \<lparr>req_name = ''python'', req_namespace = None, req_version = None,
          req_requirement = ''>=3.6'', req_pinned = False\<rparr>"
    by (simp add: split_requirement_def py_partition_def exact_version_def startswith_def
        split_namespace_def py_in_def)
  have r: "reserved ''python''" "\<not> reserved ''numpy''" by (simp_all add: reserved_def)
  have p: "parse [(''run'', [''numpy'', ''python >=3.6'', ''pip'']), (''build'', [''python''])] =
     Inr ([\<lparr>purl = \<lparr>purl_type = ''conda'', purl_namespace = None, purl_name = ''numpy'',
                     purl_version = None\<rparr>,
            extracted_requirement = Some [], scope = ''run'', is_runtime = True,
            is_optional = False, is_pinned = False, is_direct = True\<rparr>],
          [(''run'', [''python >=3.6'', ''pip'']), (''build'', [''python''])])"
    by (simp add: parse_def add_requirement_def split_requirement_def py_partition_def
        exact_version_def startswith_def split_namespace_def py_in_def reserved_def
        requirement_purl_def package_url_def to_string_def normalized_examples
        requirement_package_def)
  from reserved_requirements_held_back [of "''python >=3.6''" "''run''" "[]" "[(''run'', [''pip''])]"
      "[(''run'', [''numpy'', ''python >=3.6'', ''pip'']), (''build'', [''python''])]"] s r p
  show ?thesis by (simp add: held_requirements_def)
qed

text \<open>The test of line 145 is on the name as it was parsed. A name that only the
  class's normalisation turns into a reserved one is not held back: it gives a
  dependency whose package URL has the attribute \<^verbatim>\<open>name\<close> equal to \<^verbatim>\<open>pip\<close>.\<close>

lemma slashed_name_not_held_back:
  "parse [(''run'', [''pip/''])] =
     Inr ([\<lparr>purl = \<lparr>purl_type = ''conda'', purl_namespace = None, purl_name = ''pip/'',
                     purl_version = None\<rparr>,
            extracted_requirement = Some [], scope = ''run'', is_runtime = True,
            is_optional = False, is_pinned = False, is_direct = True\<rparr>], [])"
  "normalized_name \<lparr>purl_type = ''conda'', purl_namespace = None, purl_name = ''pip/'',
                    purl_version = None\<rparr> = ''pip''"
  by (simp_all add: parse_def add_requirement_def split_requirement_def py_partition_def
      exact_version_def startswith_def split_namespace_def py_in_def reserved_def
      requirement_purl_def package_url_def to_string_def normalized_examples
      requirement_package_def)

text \<open>
  Claim C7 as stated fails: a line of a \<^verbatim>\<open>pip\<close> list is not filtered, so a
  dependency named \<^verbatim>\<open>pip\<close> reaches the output of the environment list.
\<close>

theorem pip_list_keeps_reserved_name:
  "get_conda_yaml_dependencies [''pip==20.0'' \<mapsto> \<lparr>dep_name = ''pip'', dep_specs = ''==20.0''\<rparr>]
     [Dict [(''pip'', [''pip==20.0''])]] =
   Inr [\<lparr>purl = \<lparr>purl_type = ''pypi'', purl_namespace = None, purl_name = ''pip'',
                  purl_version = Some ''20.0''\<rparr>,
         extracted_requirement = Some ''==20.0'', scope = ''dependencies'', is_runtime = True,
         is_optional = False, is_pinned = True, is_direct = True\<rparr>] \<and>
   normalized_name \<lparr>purl_type = ''pypi'', purl_namespace = None, purl_name = ''pip'',
                    purl_version = Some ''20.0''\<rparr> = ''pip'' \<and>
   reserved ''pip''"
  by (simp add: get_conda_yaml_dependencies_def pypi_package_def pypi_purl_def package_url_def
      to_string_def dependent_package_def pypi_version_def py_in_def py_replace.simps
      reserved_def normalized_examples)

text \<open>
  Claim C7, amended. With a requirement parser that reads \<^verbatim>\<open>python >=3.6\<close> and
  \<^verbatim>\<open>numpy\<close> as a name and a specifier, the list of these two strings gives exactly one
  dependency, for \<^verbatim>\<open>numpy\<close>. In any environment list, a dependency whose package URL
  has a reserved name, as the class normalises it, can only come from a line of a
  \<^verbatim>\<open>pip\<close> list: every string entry with such a name is dropped. The output keeps the
  order of the entries: the dependencies of a list \<open>xs @ ys\<close> are those of \<open>xs\<close>
  followed by those the loop gives for \<open>ys\<close>.
\<close>

theorem string_entries_filtered_in_order:
  "(p ''python >=3.6'' = Some \<lparr>dep_name = ''python'', dep_specs = ''>=3.6''\<rparr> \<and>
    p ''numpy'' = Some \<lparr>dep_name = ''numpy'', dep_specs = []\<rparr> \<longrightarrow>
    get_conda_yaml_dependencies p [Str ''python >=3.6'', Str ''numpy''] =
      Inr [\<lparr>purl = \<lparr>purl_type = ''pypi'', purl_namespace = None, purl_name = ''numpy'',
                     purl_version = None\<rparr>,
            extracted_requirement = Some [], scope = ''dependencies'', is_runtime = True,
            is_optional = False, is_pinned = False, is_direct = True\<rparr>]) \<and>
   (\<forall>deps d. get_conda_yaml_dependencies p dependencies = Inr deps \<and> d \<in> set deps \<and>
      reserved (normalized_name (purl d)) \<longrightarrow>
      (\<exists>m lines line req. Dict m \<in> set dependencies \<and> map_of m ''pip'' = Some lines \<and>
         line \<in> set lines \<and> p line = Some req \<and> pypi_package req = Inr d)) \<and>
   (\<forall>deps. get_conda_yaml_dependencies p (xs @ ys) = Inr deps \<longrightarrow>
      (\<exists>version out1 out2. get_conda_yaml_dependencies p xs = Inr out1 \<and>
         dependencies_loop p version ys = Inr out2 \<and> deps = out1 @ out2))"
proof (intro conjI allI impI)
  assume "p ''python >=3.6'' = Some \<lparr>dep_name = ''python'', dep_specs = ''>=3.6''\<rparr> \<and>
    p ''numpy'' = Some \<lparr>dep_name = ''numpy'', dep_specs = []\<rparr>"
  then show "get_conda_yaml_dependencies p [Str ''python >=3.6'', Str ''numpy''] =
      Inr [\<lparr>purl = \<lparr>purl_type = ''pypi'', purl_namespace = None, purl_name = ''numpy'',
                     purl_version = None\<rparr>,
            extracted_requirement = Some [], scope = ''dependencies'', is_runtime = True,
            is_optional = False, is_pinned = False, is_direct = True\<rparr>]"
    by (simp add: get_conda_yaml_dependencies_def string_dependency_def string_purl_def
        channel_namespace_def py_in_def unless_reserved_def reserved_def pypi_purl_def
        package_url_def to_string_def dependent_package_def pypi_version_def
        normalized_examples)
next
  fix deps d
  assume a: "get_conda_yaml_dependencies p dependencies = Inr deps \<and> d \<in> set deps \<and>
      reserved (normalized_name (purl d))"
  then have "dependencies_loop p Unbound dependencies = Inr deps" "d \<in> set deps"
    by (simp_all add: get_conda_yaml_dependencies_def)
  from dependencies_loop_origin [OF this] a
  show "\<exists>m lines line req. Dict m \<in> set dependencies \<and> map_of m ''pip'' = Some lines \<and>
         line \<in> set lines \<and> p line = Some req \<and> pypi_package req = Inr d"
    by (auto dest: string_dependency_new)
next
  fix deps
  assume "get_conda_yaml_dependencies p (xs @ ys) = Inr deps"
  then show "\<exists>version out1 out2. get_conda_yaml_dependencies p xs = Inr out1 \<and>
         dependencies_loop p version ys = Inr out2 \<and> deps = out1 @ out2"
    unfolding get_conda_yaml_dependencies_def by (rule dependencies_loop_append)
qed

theorem string_entries_filtered_in_order_witness:
  "[''python >=3.6'' \<mapsto> \<lparr>dep_name = ''python'', dep_specs = ''>=3.6''\<rparr>,
    ''numpy'' \<mapsto> \<lparr>dep_name = ''numpy'', dep_specs = []\<rparr>] ''python >=3.6'' =
      Some \<lparr>dep_name = ''python'', dep_specs = ''>=3.6''\<rparr> \<and>
   [''python >=3.6'' \<mapsto> \<lparr>dep_name = ''python'', dep_specs = ''>=3.6''\<rparr>,
    ''numpy'' \<mapsto> \<lparr>dep_name = ''numpy'', dep_specs = []\<rparr>] ''numpy'' =
      Some \<lparr>dep_name = ''numpy'', dep_specs = []\<rparr> \<and>
   get_conda_yaml_dependencies
     [''python >=3.6'' \<mapsto> \<lparr>dep_name = ''python'', dep_specs = ''>=3.6''\<rparr>,
      ''numpy'' \<mapsto> \<lparr>dep_name = ''numpy'', dep_specs = []\<rparr>]
     [Str ''python >=3.6'', Str ''numpy''] =
      Inr [\<lparr>purl = \<lparr>purl_type = ''pypi'', purl_namespace = None, purl_name = ''numpy'',
                     purl_version = None\<rparr>,
            extracted_requirement = Some [], scope = ''dependencies'', is_runtime = True,
            is_optional = False, is_pinned = False, is_direct = True\<rparr>] \<and>
   get_conda_yaml_dependencies
     [''python >=3.6'' \<mapsto> \<lparr>dep_name = ''python'', dep_specs = ''>=3.6''\<rparr>,
      ''numpy'' \<mapsto> \<lparr>dep_name = ''numpy'', dep_specs = []\<rparr>]
     [Str ''python >=3.6''] = Inr [] \<and>
   dependencies_loop
     [''python >=3.6'' \<mapsto> \<lparr>dep_name = ''python'', dep_specs = ''>=3.6''\<rparr>,
      ''numpy'' \<mapsto> \<lparr>dep_name = ''numpy'', dep_specs = []\<rparr>]
     (Bound None) [Str ''numpy''] =
      Inr [\<lparr>purl = \<lparr>purl_type = ''pypi'', purl_namespace = None, purl_name = ''numpy'',
                     purl_version = None\<rparr>,
            extracted_requirement = Some [], scope = ''dependencies'', is_runtime = True,
            is_optional = False, is_pinned = False, is_direct = True\<rparr>] \<and>
   get_conda_yaml_dependencies
     [''pip'' \<mapsto> \<lparr>dep_name = ''pip'', dep_specs = []\<rparr>]
     [Str ''numpy=1.15.4'', Dict [(''pip'', [''pip''])]] =
      Inr [\<lparr>purl = \<lparr>purl_type = ''conda'', purl_namespace = None, purl_name = ''numpy'',
                     purl_version = Some ''1.15.4''\<rparr>,
            extracted_requirement = Some ''=1.15.4'', scope = ''dependencies'',
            is_runtime = True, is_optional = False, is_pinned = True, is_direct = True\<rparr>,
           \<lparr>purl = \<lparr>purl_type = ''pypi'', purl_namespace = None, purl_name = ''pip'',
                     purl_version = None\<rparr>,
            extracted_requirement = Some [], scope = ''dependencies'', is_runtime = True,
            is_optional = False, is_pinned = False, is_direct = True\<rparr>] \<and>
   reserved (normalized_name \<lparr>purl_type = ''pypi'', purl_namespace = None, purl_name = ''pip'',
                              purl_version = None\<rparr>) \<and>
   map_of [(''pip'', [''pip''])] ''pip'' = Some [''pip''] \<and>
   pypi_package \<lparr>dep_name = ''pip'', dep_specs = []\<rparr> =
     Inr \<lparr>purl = \<lparr>purl_type = ''pypi'', purl_namespace = None, purl_name = ''pip'',
                   purl_version = None\<rparr>,
          extracted_requirement = Some [], scope = ''dependencies'', is_runtime = True,
          is_optional = False, is_pinned = False, is_direct = True\<rparr>"
proof -
  let ?p = "[''python >=3.6'' \<mapsto> \<lparr>dep_name = ''python'', dep_specs = ''>=3.6''\<rparr>,
             ''numpy'' \<mapsto> \<lparr>dep_name = ''numpy'', dep_specs = []\<rparr>]"
  note n = normalized_examples
  have 1: "get_conda_yaml_dependencies ?p [Str ''python >=3.6''] = Inr []"
    by (simp add: get_conda_yaml_dependencies_def string_dependency_def string_purl_def
        channel_namespace_def py_in_def unless_reserved_def reserved_def pypi_purl_def
        package_url_def n)
  have 2: "dependencies_loop ?p (Bound None) [Str ''numpy''] =
      Inr [\<lparr>purl = \<lparr>purl_type = ''pypi'', purl_namespace = None, purl_name = ''numpy'',
                     purl_version = None\<rparr>,
            extracted_requirement = Some [], scope = ''dependencies'', is_runtime = True,
            is_optional = False, is_pinned = False, is_direct = True\<rparr>]"
    by (simp add: string_dependency_def string_purl_def channel_namespace_def py_in_def
        unless_reserved_def reserved_def pypi_purl_def package_url_def to_string_def
        dependent_package_def pypi_version_def n)
  have 3: "pypi_package \<lparr>dep_name = ''pip'', dep_specs = []\<rparr> =
     Inr \<lparr>purl = \<lparr>purl_type = ''pypi'', purl_namespace = None, purl_name = ''pip'',
                   purl_version = None\<rparr>,
          extracted_requirement = Some [], scope = ''dependencies'', is_runtime = True,
          is_optional = False, is_pinned = False, is_direct = True\<rparr>"
    by (simp add: pypi_package_def pypi_purl_def package_url_def to_string_def
        dependent_package_def pypi_version_def py_in_def n)
  have 4: "get_conda_yaml_dependencies
     [''pip'' \<mapsto> \<lparr>dep_name = ''pip'', dep_specs = []\<rparr>]
     [Str ''numpy=1.15.4'', Dict [(''pip'', [''pip''])]] =
      Inr [\<lparr>purl = \<lparr>purl_type = ''conda'', purl_namespace = None, purl_name = ''numpy'',
                     purl_version = Some ''1.15.4''\<rparr>,
            extracted_requirement = Some ''=1.15.4'', scope = ''dependencies'',
            is_runtime = True, is_optional = False, is_pinned = True, is_direct = True\<rparr>,
           \<lparr>purl = \<lparr>purl_type = ''pypi'', purl_namespace = None, purl_name = ''pip'',
                     purl_version = None\<rparr>,
            extracted_requirement = Some [], scope = ''dependencies'', is_runtime = True,
            is_optional = False, is_pinned = False, is_direct = True\<rparr>]"
    by (simp add: get_conda_yaml_dependencies_def string_dependency_def string_purl_def
        channel_namespace_def py_in_def unpack2_def py_split.simps unless_reserved_def
        reserved_def package_url_def to_string_def dependent_package_def normalized_examples 3)
  have 5: "reserved (normalized_name \<lparr>purl_type = ''pypi'', purl_namespace = None,
      purl_name = ''pip'', purl_version = None\<rparr>)"
    by (simp add: n reserved_def)
  from 1 2 3 4 5 show ?thesis
    using string_entries_filtered_in_order [of ?p] by simp
qed

text \<open>The test of line 235 is on the normalised name: a string entry that the
  requirement parser reads with the name \<^verbatim>\<open>Python\<close> is dropped as well.\<close>

lemma capitalised_name_dropped:
  "get_conda_yaml_dependencies
     [''Python >=3.6'' \<mapsto> \<lparr>dep_name = ''Python'', dep_specs = ''>=3.6''\<rparr>,
      ''numpy'' \<mapsto> \<lparr>dep_name = ''numpy'', dep_specs = []\<rparr>]
     [Str ''Python >=3.6'', Str ''numpy''] =
      Inr [\<lparr>purl = \<lparr>purl_type = ''pypi'', purl_namespace = None, purl_name = ''numpy'',
                     purl_version = None\<rparr>,
            extracted_requirement = Some [], scope = ''dependencies'', is_runtime = True,
            is_optional = False, is_pinned = False, is_direct = True\<rparr>]"
  by (simp add: get_conda_yaml_dependencies_def string_dependency_def string_purl_def
      channel_namespace_def py_in_def unless_reserved_def reserved_def pypi_purl_def
      package_url_def to_string_def dependent_package_def pypi_version_def
      normalized_examples)

subsection \<open>Pinned dependencies\<close>

text \<open>Whether a pinned dependency carries a version is a matter of the text that was
  taken for the version where it was pinned.\<close>

lemma double_equals_within:
  assumes "py_in ''=='' (CHR ''='' # w)"
  shows "CHR ''='' \<in> set w"
proof -
  from assms have "sublist ''=='' (CHR ''='' # w)" by (simp only: py_in_sublist)
  then have "prefix ''=='' (CHR ''='' # w) \<or> sublist ''=='' w"
    by (simp only: sublist_Cons_right)
  then show ?thesis
  proof
    assume "prefix ''=='' (CHR ''='' # w)"
    then show ?thesis by (auto simp: prefix_def)
  next
    assume "sublist ''=='' w"
    then have "set ''=='' \<subseteq> set w" by (rule set_mono_sublist)
    then show ?thesis by simp
  qed
qed

lemma carries_version_pin:
  assumes "purl_version (purl d) = Some v" "extracted_requirement d = Some (''='' @ v)"
    "CHR ''='' \<notin> set v"
  shows "carries_version d \<longleftrightarrow> py_strip v \<noteq> []"
  using assms by (simp add: carries_version_def normalized_version_def)

lemma carries_version_specifier:
  assumes "purl_version (purl d) = Some v" "extracted_requirement d = Some specs"
    "py_in ''=='' specs"
  shows "carries_version d \<longleftrightarrow> py_strip v \<noteq> []"
proof -
  have "\<not> (case specs of c # w \<Rightarrow> c = CHR ''='' \<and> py_strip w \<noteq> [] \<and> CHR ''='' \<notin> set w
            | _ \<Rightarrow> False)"
    using assms(3) by (auto split: list.splits dest: double_equals_within)
  with assms(1,2) show ?thesis by (simp add: carries_version_def normalized_version_def)
qed

text \<open>
  Claim C9 as stated fails: a name part that ends with \<^verbatim>\<open>=\<close> pins the dependency with
  the empty text as its version. The package URL then has no version, and the extracted
  requirement is the bare \<^verbatim>\<open>=\<close>.
\<close>

theorem pinned_without_version:
  "parse [(''run'', [''numpy=''])] =
     Inr ([\<lparr>purl = \<lparr>purl_type = ''conda'', purl_namespace = None, purl_name = ''numpy'',
                     purl_version = Some []\<rparr>,
            extracted_requirement = Some ''='', scope = ''run'', is_runtime = True,
            is_optional = False, is_pinned = True, is_direct = True\<rparr>], []) \<and>
   normalized_version \<lparr>purl_type = ''conda'', purl_namespace = None, purl_name = ''numpy'',
                       purl_version = Some []\<rparr> = None \<and>
   \<not> carries_version
     \<lparr>purl = \<lparr>purl_type = ''conda'', purl_namespace = None, purl_name = ''numpy'',
              purl_version = Some []\<rparr>,
      extracted_requirement = Some ''='', scope = ''run'', is_runtime = True,
      is_optional = False, is_pinned = True, is_direct = True\<rparr> \<and>
   get_conda_yaml_dependencies Map.empty [Str ''numpy=''] =
     Inr [\<lparr>purl = \<lparr>purl_type = ''conda'', purl_namespace = None, purl_name = ''numpy'',
                    purl_version = Some []\<rparr>,
           extracted_requirement = Some ''='', scope = ''dependencies'', is_runtime = True,
           is_optional = False, is_pinned = True, is_direct = True\<rparr>] \<and>
   \<not> carries_version
     \<lparr>purl = \<lparr>purl_type = ''conda'', purl_namespace = None, purl_name = ''numpy'',
              purl_version = Some []\<rparr>,
      extracted_requirement = Some ''='', scope = ''dependencies'', is_runtime = True,
      is_optional = False, is_pinned = True, is_direct = True\<rparr>"
proof -
  have 1: "parse [(''run'', [''numpy=''])] =
     Inr ([\<lparr>purl = \<lparr>purl_type = ''conda'', purl_namespace = None, purl_name = ''numpy'',
                     purl_version = Some []\<rparr>,
            extracted_requirement = Some ''='', scope = ''run'', is_runtime = True,
            is_optional = False, is_pinned = True, is_direct = True\<rparr>], [])"
    by (simp add: parse_def add_requirement_def requirement_package_def split_requirement_def
        py_partition_def exact_version_def startswith_def split_namespace_def py_in_def
        unpack2_def py_split.simps reserved_def requirement_purl_def package_url_def
        to_string_def normalized_examples)
  have 2: "get_conda_yaml_dependencies Map.empty [Str ''numpy=''] =
     Inr [\<lparr>purl = \<lparr>purl_type = ''conda'', purl_namespace = None, purl_name = ''numpy'',
                    purl_version = Some []\<rparr>,
           extracted_requirement = Some ''='', scope = ''dependencies'', is_runtime = True,
           is_optional = False, is_pinned = True, is_direct = True\<rparr>]"
    by (simp add: get_conda_yaml_dependencies_def string_dependency_def string_purl_def
        channel_namespace_def py_in_def unpack2_def py_split.simps unless_reserved_def
        reserved_def package_url_def to_string_def dependent_package_def normalized_examples)
  have 3: "normalized_version \<lparr>purl_type = ''conda'', purl_namespace = None,
      purl_name = ''numpy'', purl_version = Some []\<rparr> = None"
    by (simp add: normalized_version_def py_strip_def)
  from 1 2 3 show ?thesis by (simp add: carries_version_def py_strip_def)
qed

text \<open>
  Claim C9, amended. Every pinned dependency, from the recipe's requirements or from the
  environment list, was pinned at a text taken for its version: the text after the
  \<^verbatim>\<open>=\<close> of the name part, with the extracted requirement \<^verbatim>\<open>=\<close> followed by that
  text, or, in the environment list, the requirement parser's specifier with its
  \<^verbatim>\<open>==\<close> taken out, the specifier being the extracted requirement. The package URL
  was built with that text as its version, and the dependency carries a version exactly
  when the text is not blank.
\<close>

theorem pinned_carries_version:
  "(\<forall>deps extra d. parse requirements = Inr (deps, extra) \<and> d \<in> set deps \<and> is_pinned d \<longrightarrow>
      (\<exists>v. purl_version (purl d) = Some v \<and>
           CHR ''='' \<notin> set v \<and> extracted_requirement d = Some (''='' @ v) \<and>
           (carries_version d \<longleftrightarrow> py_strip v \<noteq> []))) \<and>
   (\<forall>deps d. get_conda_yaml_dependencies parse_requirement_line dependencies = Inr deps \<and>
      d \<in> set deps \<and> is_pinned d \<longrightarrow>
      (\<exists>v. purl_version (purl d) = Some v \<and>
           (CHR ''='' \<notin> set v \<and> extracted_requirement d = Some (''='' @ v) \<or>
            (\<exists>specs. py_in ''=='' specs \<and> extracted_requirement d = Some specs \<and>
                     v = py_replace ''=='' [] specs)) \<and>
           (carries_version d \<longleftrightarrow> py_strip v \<noteq> [])))"
proof (intro conjI allI impI)
  fix deps extra d
  assume a: "parse requirements = Inr (deps, extra) \<and> d \<in> set deps \<and> is_pinned d"
  then obtain sc r req p where r: "split_requirement req = Inr r" "requirement_purl r = Inr p"
    "d = requirement_package sc r p"
    using parse_origin [of requirements deps extra d] by blast
  with a have "req_pinned r" by (simp add: requirement_package_def)
  from split_requirement_pinned [OF r(1) this] obtain v where
    v: "CHR ''='' \<notin> set v" "req_version r = Some v" "req_requirement r = ''='' @ v"
    by blast
  from r(2,3) v have d: "purl_version (purl d) = Some v"
    "extracted_requirement d = Some (''='' @ v)"
    by (auto simp: requirement_package_def requirement_purl_Inr)
  from carries_version_pin [OF d v(1)] d v(1)
  show "\<exists>v. purl_version (purl d) = Some v \<and>
           CHR ''='' \<notin> set v \<and> extracted_requirement d = Some (''='' @ v) \<and>
           (carries_version d \<longleftrightarrow> py_strip v \<noteq> [])"
    by blast
next
  fix deps d
  assume a: "get_conda_yaml_dependencies parse_requirement_line dependencies = Inr deps \<and>
      d \<in> set deps \<and> is_pinned d"
  then have "dependencies_loop parse_requirement_line Unbound dependencies = Inr deps" "d \<in> set deps"
    by (simp_all add: get_conda_yaml_dependencies_def)
  from dependencies_loop_origin [OF this] a obtain v where
    v: "purl_version (purl d) = Some v"
       "CHR ''='' \<notin> set v \<and> extracted_requirement d = Some (''='' @ v) \<or>
        (\<exists>specs. py_in ''=='' specs \<and> extracted_requirement d = Some specs \<and>
                 v = py_replace ''=='' [] specs)"
    by (auto dest: string_dependency_new pypi_package_pinned)
  from v(2) have "carries_version d \<longleftrightarrow> py_strip v \<noteq> []"
  proof
    assume "CHR ''='' \<notin> set v \<and> extracted_requirement d = Some (''='' @ v)"
    with v(1) show ?thesis by (intro carries_version_pin) simp_all
  next
    assume "\<exists>specs. py_in ''=='' specs \<and> extracted_requirement d = Some specs \<and>
                 v = py_replace ''=='' [] specs"
    then obtain specs where "py_in ''=='' specs" "extracted_requirement d = Some specs" by blast
    with v(1) show ?thesis by (intro carries_version_specifier)
  qed
  with v show "\<exists>v. purl_version (purl d) = Some v \<and>
           (CHR ''='' \<notin> set v \<and> extracted_requirement d = Some (''='' @ v) \<or>
            (\<exists>specs. py_in ''=='' specs \<and> extracted_requirement d = Some specs \<and>
                     v = py_replace ''=='' [] specs)) \<and>
           (carries_version d \<longleftrightarrow> py_strip v \<noteq> [])"
    by blast
qed

theorem pinned_carries_version_witness:
  "parse [(''run'', [''conda-forge::numpy=1.15.4''])] =
     Inr ([\<lparr>purl = \<lparr>purl_type = ''conda'', purl_namespace = Some ''conda-forge'',
                     purl_name = ''numpy'', purl_version = Some ''1.15.4''\<rparr>,
            extracted_requirement = Some ''=1.15.4'', scope = ''run'', is_runtime = True,
            is_optional = False, is_pinned = True, is_direct = True\<rparr>], []) \<and>
   py_strip ''1.15.4'' = ''1.15.4'' \<and>
   carries_version
     \<lparr>purl = \<lparr>purl_type = ''conda'', purl_namespace = Some ''conda-forge'',
              purl_name = ''numpy'', purl_version = Some ''1.15.4''\<rparr>,
      extracted_requirement = Some ''=1.15.4'', scope = ''run'', is_runtime = True,
      is_optional = False, is_pinned = True, is_direct = True\<rparr> \<and>
   get_conda_yaml_dependencies
     [''numpy==1.15.4'' \<mapsto> \<lparr>dep_name = ''numpy'', dep_specs = ''==1.15.4''\<rparr>]
     [Str ''numpy==1.15.4''] =
     Inr [\<lparr>purl = \<lparr>purl_type = ''pypi'', purl_namespace = None,
                    purl_name = ''numpy'', purl_version = Some ''1.15.4''\<rparr>,
           extracted_requirement = Some ''==1.15.4'', scope = ''dependencies'',
           is_runtime = True, is_optional = False, is_pinned = True, is_direct = True\<rparr>] \<and>
   py_replace ''=='' [] ''==1.15.4'' = ''1.15.4'' \<and>
   carries_version
     \<lparr>purl = \<lparr>purl_type = ''pypi'', purl_namespace = None,
              purl_name = ''numpy'', purl_version = Some ''1.15.4''\<rparr>,
      extracted_requirement = Some ''==1.15.4'', scope = ''dependencies'',
      is_runtime = True, is_optional = False, is_pinned = True, is_direct = True\<rparr>"
proof -
  let ?p = "[''numpy==1.15.4'' \<mapsto> \<lparr>dep_name = ''numpy'', dep_specs = ''==1.15.4''\<rparr>]"
  have a: "parse [(''run'', [''conda-forge::numpy=1.15.4''])] =
     Inr ([\<lparr>purl = \<lparr>purl_type = ''conda'', purl_namespace = Some ''conda-forge'',
                     purl_name = ''numpy'', purl_version = Some ''1.15.4''\<rparr>,
            extracted_requirement = Some ''=1.15.4'', scope = ''run'', is_runtime = True,
            is_optional = False, is_pinned = True, is_direct = True\<rparr>], [])"
    by (simp add: parse_def add_requirement_def requirement_package_def split_requirement_def
        py_partition_def exact_version_def startswith_def split_namespace_def py_in_def
        unpack2_def py_split.simps reserved_def requirement_purl_def package_url_def
        to_string_def normalized_examples)
  note n = normalized_examples
  have r: "py_replace ''=='' [] ''==1.15.4'' = ''1.15.4''"
    by (simp add: py_replace.simps)
  have b: "get_conda_yaml_dependencies ?p [Str ''numpy==1.15.4''] =
     Inr [\<lparr>purl = \<lparr>purl_type = ''pypi'', purl_namespace = None,
                    purl_name = ''numpy'', purl_version = Some ''1.15.4''\<rparr>,
           extracted_requirement = Some ''==1.15.4'', scope = ''dependencies'',
           is_runtime = True, is_optional = False, is_pinned = True, is_direct = True\<rparr>]"
    by (simp add: get_conda_yaml_dependencies_def string_dependency_def string_purl_def
        channel_namespace_def py_in_def unless_reserved_def reserved_def pypi_purl_def
        package_url_def to_string_def dependent_package_def pypi_version_def n r)
  have s: "py_strip ''1.15.4'' = ''1.15.4''" by (simp add: py_strip_def isspace_def)
  from pinned_carries_version [of "[(''run'', [''conda-forge::numpy=1.15.4''])]" ?p
      "[Str ''numpy==1.15.4'']"]
  have "carries_version
     \<lparr>purl = \<lparr>purl_type = ''conda'', purl_namespace = Some ''conda-forge'',
              purl_name = ''numpy'', purl_version = Some ''1.15.4''\<rparr>,
      extracted_requirement = Some ''=1.15.4'', scope = ''run'', is_runtime = True,
      is_optional = False, is_pinned = True, is_direct = True\<rparr> \<and>
    carries_version
     \<lparr>purl = \<lparr>purl_type = ''pypi'', purl_namespace = None,
              purl_name = ''numpy'', purl_version = Some ''1.15.4''\<rparr>,
      extracted_requirement = Some ''==1.15.4'', scope = ''dependencies'',
      is_runtime = True, is_optional = False, is_pinned = True, is_direct = True\<rparr>"
    unfolding a b by (simp add: s)
  with a b r s show ?thesis by simp
qed

subsection \<open>References and their replacement\<close>

text \<open>When no occurrence of a pattern starts inside the text before it, the search
  finds the pattern where it is written; so replacing in a line that is a join of such
  segments replaces exactly the joints.\<close>

lemma py_join_empty: "py_join [] xs = concat xs"
  by (induction xs rule: induct_list012) simp_all

lemma prefix_within:
  assumes "prefix p (u @ w)" "length p \<le> length u"
  shows "prefix p u"
proof -
  from assms(1) have "prefix p u \<or> (\<exists>us. p = u @ us \<and> prefix us w)" by (simp only: prefix_append)
  then show ?thesis
  proof
    assume "\<exists>us. p = u @ us \<and> prefix us w"
    then obtain us where "p = u @ us" by blast
    with assms(2) have "p = u" by simp
    then show ?thesis by simp
  qed
qed

lemma split_at_first:
  assumes "pat \<noteq> []" "\<not> py_in pat (b @ butlast pat)"
  shows "split_at pat (b @ pat @ a) = Some (b, a)"
proof -
  have "split_at pat (b @ pat @ a) = map_option (\<lambda>(x, y). (b @ x, y)) (split_at pat (pat @ a))"
  proof (rule split_at_skip)
    fix i assume i: "i < length b"
    show "\<not> prefix pat (drop i b @ pat @ a)"
    proof
      assume p: "prefix pat (drop i b @ pat @ a)"
      from assms(1) have "pat @ a = butlast pat @ (last pat # a)" by simp
      with p have "prefix pat ((drop i b @ butlast pat) @ (last pat # a))" by simp
      moreover from i assms(1) have "length pat \<le> length (drop i b @ butlast pat)" by simp
      ultimately have "prefix pat (drop i b @ butlast pat)" by (rule prefix_within)
      then have "sublist pat (drop i b @ butlast pat)" by (rule prefix_imp_sublist)
      moreover have "suffix (drop i b @ butlast pat) (b @ butlast pat)"
        by (simp add: suffix_drop)
      ultimately have "sublist pat (b @ butlast pat)"
        by (meson sublist_order.order_trans suffix_imp_sublist)
      with assms(2) show False by (simp add: py_in_sublist)
    qed
  qed
  also from assms(1) have "split_at pat (pat @ a) = Some ([], a)" by (rule split_at_here)
  finally show ?thesis by simp
qed

lemma py_in_prefix_part: "py_in pat seg \<Longrightarrow> py_in pat (seg @ r)"
  unfolding py_in_sublist
  by (meson sublist_order.order_trans prefix_imp_sublist prefixI)

lemma py_replace_join:
  assumes "pat \<noteq> []" "\<forall>seg \<in> set segs. \<not> py_in pat (seg @ butlast pat)"
  shows "py_replace pat new (py_join pat segs) = py_join new segs"
  using assms(2)
proof (induction segs rule: induct_list012)
  case 1
  show ?case by (simp add: py_replace.simps)
next
  case (2 x)
  then have "\<not> py_in pat x" by (auto dest: py_in_prefix_part)
  then show ?case by (simp add: py_replace_notin)
next
  case (3 x y ys)
  from "3.prems" assms(1) have "split_at pat (x @ pat @ py_join pat (y # ys)) = Some (x, py_join pat (y # ys))"
    by (intro split_at_first) simp_all
  with assms(1) have "py_replace pat new (x @ pat @ py_join pat (y # ys))
      = x @ new @ py_replace pat new (py_join pat (y # ys))"
    by (subst py_replace.simps) (simp del: split_at.simps)
  with 3 show ?case by simp
qed

text \<open>At a variable's turn, a line that does not contain \<^verbatim>\<open>|lower\<close> has every
  reference \<^verbatim>\<open>{{ name }}\<close> replaced by the value, and a line that contains it has every
  reference \<^verbatim>\<open>{{ name|lower }}\<close> replaced by the lower-cased value; a line that
  contains \<^verbatim>\<open>|lower\<close> but no lower-case reference to the variable is left as it is by
  that turn, plain references included. The line is written as the join of its segments
  by the reference, no further occurrence of the reference starting inside a segment.\<close>

lemma replace_variable_turn:
  "(\<not> py_in ''|lower'' (py_join (reference name) segs) \<and>
    (\<forall>seg \<in> set segs. \<not> py_in (reference name) (seg @ butlast (reference name))) \<longrightarrow>
      replace_variable (py_join (reference name) segs) (name, val) = py_join val segs) \<and>
   (py_in ''|lower'' (py_join (lower_reference name) segs) \<and>
    (\<forall>seg \<in> set segs.
       \<not> py_in (lower_reference name) (seg @ butlast (lower_reference name))) \<longrightarrow>
      replace_variable (py_join (lower_reference name) segs) (name, val) =
        py_join (lower val) segs) \<and>
   (\<forall>line. py_in ''|lower'' line \<and> \<not> py_in (lower_reference name) line \<longrightarrow>
      replace_variable line (name, val) = line)"
proof (intro impI conjI allI)
  assume "\<not> py_in ''|lower'' (py_join (reference name) segs) \<and>
    (\<forall>seg \<in> set segs. \<not> py_in (reference name) (seg @ butlast (reference name)))"
  moreover have "reference name \<noteq> []" by (simp add: reference_def)
  ultimately show "replace_variable (py_join (reference name) segs) (name, val) = py_join val segs"
    by (simp add: replace_variable_def py_replace_join)
next
  assume "py_in ''|lower'' (py_join (lower_reference name) segs) \<and>
    (\<forall>seg \<in> set segs.
       \<not> py_in (lower_reference name) (seg @ butlast (lower_reference name)))"
  moreover have "lower_reference name \<noteq> []" by (simp add: lower_reference_def)
  ultimately show "replace_variable (py_join (lower_reference name) segs) (name, val) =
        py_join (lower val) segs"
    by (simp add: replace_variable_def py_replace_join)
next
  fix line
  assume "py_in ''|lower'' line \<and> \<not> py_in (lower_reference name) line"
  then show "replace_variable line (name, val) = line"
    by (simp add: replace_variable_def py_replace_notin)
qed

text \<open>Every variable of the table has its turn, in the order of the declarations.\<close>

lemma three_variables_resolved:
  "substitute [(''a'', ''1''), (''b'', ''2''), (''c'', ''3'')] ''x: {{ a }}-{{ b }}-{{ c }}-{{ a }}'' =
     ''x: 1-2-3-1''"
  "substitute [(''a'', ''One''), (''b'', ''Two''), (''c'', ''Three'')]
     ''x: {{ a|lower }}-{{ b|lower }}-{{ c|lower }}'' = ''x: one-two-three''"
  by code_simp+

text \<open>
  Claim C3 (the code departs from it). The test \<^verbatim>\<open>"|lower" in line\<close> of line 301 looks
  at the whole line, not at the reference to the variable whose turn it is. In a recipe
  that declares \<^verbatim>\<open>version\<close> before \<^verbatim>\<open>name\<close>, the line
  \<^verbatim>\<open>url: {{ name|lower }}-{{ version }}\<close> still contains \<^verbatim>\<open>|lower\<close> at the turn of
  \<^verbatim>\<open>version\<close>, so its plain reference \<^verbatim>\<open>{{ version }}\<close> is not replaced, although
  \<^verbatim>\<open>version\<close> is in the variable table; the line, still holding \<^verbatim>\<open>{{\<close>, is then dropped
  from the text that goes to the YAML loader.
\<close>

theorem plain_reference_left_beside_lower:
  "get_variables
     (''{% set version = '' @ [CHR 0x22] @ ''1.0'' @ [CHR 0x22] @ '' %}'' @ [CHR 0x0A] @
      ''{% set name = '' @ [CHR 0x22] @ ''Foo'' @ [CHR 0x22] @ '' %}'' @ [CHR 0x0A] @
      ''url: {{ name|lower }}-{{ version }}'' @ [CHR 0x0A]) =
     [(''version'', ''1.0''), (''name'', ''Foo'')] \<and>
   substitute [(''version'', ''1.0''), (''name'', ''Foo'')]
     (''url: {{ name|lower }}-{{ version }}'' @ [CHR 0x0A]) =
     ''url: foo-{{ version }}'' @ [CHR 0x0A] \<and>
   cleaned_yaml [(''version'', ''1.0''), (''name'', ''Foo'')]
     (''{% set version = '' @ [CHR 0x22] @ ''1.0'' @ [CHR 0x22] @ '' %}'' @ [CHR 0x0A] @
      ''{% set name = '' @ [CHR 0x22] @ ''Foo'' @ [CHR 0x22] @ '' %}'' @ [CHR 0x0A] @
      ''url: {{ name|lower }}-{{ version }}'' @ [CHR 0x0A]) = []"
  by (intro conjI) code_simp+

text \<open>With the other order of declarations the same line is resolved: the turn of
  \<^verbatim>\<open>name\<close> takes \<^verbatim>\<open>|lower\<close> off the line before the turn of \<^verbatim>\<open>version\<close>. A variable
  that is referred to in both forms on one line is never resolved in its plain form.\<close>

lemma lower_first_order_resolves:
  "get_variables
     (''{% set name = '' @ [CHR 0x22] @ ''Foo'' @ [CHR 0x22] @ '' %}'' @ [CHR 0x0A] @
      ''{% set version = '' @ [CHR 0x22] @ ''1.0'' @ [CHR 0x22] @ '' %}'' @ [CHR 0x0A] @
      ''url: {{ name|lower }}-{{ version }}'' @ [CHR 0x0A]) =
     [(''name'', ''Foo''), (''version'', ''1.0'')]"
  "cleaned_yaml [(''name'', ''Foo''), (''version'', ''1.0'')]
     (''{% set name = '' @ [CHR 0x22] @ ''Foo'' @ [CHR 0x22] @ '' %}'' @ [CHR 0x0A] @
      ''{% set version = '' @ [CHR 0x22] @ ''1.0'' @ [CHR 0x22] @ '' %}'' @ [CHR 0x0A] @
      ''url: {{ name|lower }}-{{ version }}'' @ [CHR 0x0A]) =
     ''url: foo-1.0'' @ [CHR 0x0A]"
  "substitute [(''name'', ''Foo'')] ''{{ name }}: {{ name|lower }}'' = ''{{ name }}: foo''"
  by code_simp+

subsection \<open>Lines and their ends\<close>

text \<open>Every line of a file but the last ends with a newline, substitution keeps the
  last character of such a line, and so no \<^verbatim>\<open>{{\<close> can arise where two kept lines
  meet.\<close>

lemma readlines_concat: "concat (readlines t) = t"
  by (induction t) (auto split: list.splits)

lemma readlines_nonempty: "[] \<notin> set (readlines t)"
  by (induction t) (auto split: list.splits)

lemma readlines_butlast: "l \<in> set (butlast (readlines t)) \<Longrightarrow> ends_line l"
proof (induction t arbitrary: l)
  case Nil
  then show ?case by simp
next
  case (Cons c cs)
  show ?case
  proof (cases "c = CHR 0x0A")
    case True
    with Cons show ?thesis by (auto simp: ends_line_def split: if_splits)
  next
    case False
    show ?thesis
    proof (cases "readlines cs")
      case Nil
      with False Cons.prems show ?thesis by simp
    next
      case (Cons l' ls)
      with False Cons.prems have "l \<in> set (butlast ((c # l') # ls))" by simp
      then have "ls \<noteq> [] \<and> (l = c # l' \<or> l \<in> set (butlast ls))" by (cases ls) auto
      moreover from Cons have "ls \<noteq> [] \<Longrightarrow> l' \<in> set (butlast (readlines cs))" by simp
      moreover from Cons have "l \<in> set (butlast ls) \<Longrightarrow> l \<in> set (butlast (readlines cs))" by auto
      ultimately show ?thesis using Cons.IH by (auto simp: ends_line_def)
    qed
  qed
qed

lemma yaml_lines_filter:
  "yaml_lines variables lines =
     map (substitute variables) (filter (\<lambda>l. l \<noteq> [] \<and> \<not> is_declaration (py_strip l)) lines)"
  by (induction lines) simp_all

lemma butlast_filter_subset: "set (butlast (filter P xs)) \<subseteq> set (butlast xs)"
proof (induction xs)
  case Nil
  show ?case by simp
next
  case (Cons x xs)
  show ?case
  proof (cases "filter P xs = []")
    case True
    then show ?thesis using Cons by (auto split: if_splits)
  next
    case False
    then have "xs \<noteq> []" by auto
    with False Cons show ?thesis by auto
  qed
qed

lemma split_at_snoc:
  assumes "pat \<noteq> []" "last pat \<noteq> c"
  shows "split_at pat (s @ [c]) = map_option (\<lambda>(b, a). (b, a @ [c])) (split_at pat s)"
proof (induction s)
  case Nil
  from assms have "\<not> prefix pat [c]"
    by (cases pat) (auto simp: prefix_def Cons_eq_append_conv)
  with assms(1) show ?case by simp
next
  case (Cons x s)
  have p: "prefix pat (x # s @ [c]) \<longleftrightarrow> prefix pat (x # s)"
  proof
    assume "prefix pat (x # s @ [c])"
    then have "prefix pat ((x # s) @ [c])" by simp
    then have "prefix pat (x # s) \<or> pat = (x # s) @ [c]" by (auto simp only: prefix_snoc)
    with assms(2) show "prefix pat (x # s)" by auto
  next
    assume "prefix pat (x # s)"
    then show "prefix pat (x # s @ [c])" by (metis append_Cons prefix_prefix)
  qed
  show ?case
  proof (cases "prefix pat (x # s)")
    case True
    then have "length pat \<le> length (x # s)" by (rule prefix_length_le)
    then have "drop (length pat) ((x # s) @ [c]) = drop (length pat) (x # s) @ [c]"
      by (simp only: drop_append) simp
    with True p show ?thesis by simp
  next
    case False
    with p Cons.IH show ?thesis by (simp add: option.map_comp comp_def case_prod_unfold)
  qed
qed

lemma py_replace_snoc:
  assumes "pat \<noteq> []" "last pat \<noteq> c"
  shows "py_replace pat new (s @ [c]) = py_replace pat new s @ [c]"
proof (induction "length s" arbitrary: s rule: less_induct)
  case less
  show ?case
  proof (cases "split_at pat s")
    case None
    with assms split_at_snoc [OF assms, of s] show ?thesis
      by (subst (1 2) py_replace.simps) simp
  next
    case (Some ba)
    obtain b a where ba: "ba = (b, a)" by (cases ba)
    with Some assms(1) have "length a < length s" by (auto dest: split_at_shorter)
    from less [OF this] Some ba assms split_at_snoc [OF assms, of s] show ?thesis
      by (subst (1 2) py_replace.simps) simp
  qed
qed

lemma replace_variable_ends_line:
  assumes "ends_line l"
  shows "ends_line (replace_variable l item)"
proof -
  from assms obtain s where s: "l = s @ [CHR 0x0A]"
    by (metis append_butlast_last_id ends_line_def)
  obtain n v where item: "item = (n, v)" by (cases item)
  have "py_replace (reference n) v (s @ [CHR 0x0A]) = py_replace (reference n) v s @ [CHR 0x0A]"
    by (rule py_replace_snoc) (simp_all add: reference_def)
  moreover have "py_replace (lower_reference n) (lower v) (s @ [CHR 0x0A]) =
      py_replace (lower_reference n) (lower v) s @ [CHR 0x0A]"
    by (rule py_replace_snoc) (simp_all add: lower_reference_def)
  ultimately show ?thesis using s item
    by (simp add: replace_variable_def ends_line_def)
qed

lemma substitute_ends_line: "ends_line l \<Longrightarrow> ends_line (substitute variables l)"
proof -
  assume e: "ends_line l"
  have "ends_line (foldl replace_variable l variables)" using e
    by (induction variables arbitrary: l) (simp_all add: replace_variable_ends_line)
  with e show ?thesis by (simp add: substitute_def)
qed

lemma two_split:
  "[a, b] = xs1 @ xs2 \<Longrightarrow>
     xs1 = [] \<and> xs2 = [a, b] \<or> xs1 = [a] \<and> xs2 = [b] \<or> xs1 = [a, b] \<and> xs2 = []"
  by (auto simp: Cons_eq_append_conv)

lemma concat_no_marker:
  assumes "\<forall>l \<in> set ls. \<not> py_in ''{{'' l" "\<forall>l \<in> set (butlast ls). ends_line l"
  shows "\<not> py_in ''{{'' (concat ls)"
  using assms
proof (induction ls)
  case Nil
  show ?case by (simp add: py_in_def)
next
  case (Cons l ls)
  show ?case
  proof (cases "ls = []")
    case True
    with Cons.prems show ?thesis by simp
  next
    case False
    with Cons.prems have e: "ends_line l" and r: "\<forall>l \<in> set (butlast ls). ends_line l" by simp_all
    from Cons.prems(1) have "\<forall>l \<in> set ls. \<not> py_in ''{{'' l" by simp
    from Cons.IH [OF this r] have c: "\<not> sublist ''{{'' (concat ls)" by (simp add: py_in_sublist)
    from Cons.prems(1) have d: "\<not> sublist ''{{'' l" by (simp add: py_in_sublist)
    from e have n: "\<not> suffix ''{'' l"
      by (auto simp: ends_line_def suffix_def)
    show ?thesis
    proof
      assume "py_in ''{{'' (concat (l # ls))"
      then have "sublist ''{{'' (l @ concat ls)" by (simp add: py_in_sublist)
      then have "sublist ''{{'' l \<or> sublist ''{{'' (concat ls) \<or>
          (\<exists>xs1 xs2. ''{{'' = xs1 @ xs2 \<and> suffix xs1 l \<and> prefix xs2 (concat ls))"
        by (simp only: sublist_append)
      with c d obtain xs1 xs2 where x: "''{{'' = xs1 @ xs2" "suffix xs1 l" "prefix xs2 (concat ls)"
        by blast
      from two_split [OF x(1)] show False
      proof (elim disjE conjE)
        assume "xs2 = ''{{''"
        with x(3) have "sublist ''{{'' (concat ls)" by (simp only: prefix_imp_sublist)
        with c show False ..
      next
        assume "xs1 = ''{''"
        with x(2) n show False by simp
      next
        assume "xs1 = ''{{''"
        with x(2) have "sublist ''{{'' l" by (simp only: suffix_imp_sublist)
        with d show False ..
      qed
    qed
  qed
qed

lemma butlast_filter_member: "x \<in> set (butlast (filter P xs)) \<Longrightarrow> x \<in> set (butlast xs)"
  by (rule subsetD [OF butlast_filter_subset])

lemma cleaned_lines_end:
  assumes "l \<in> set (butlast (cleaned_yaml_lines (yaml_lines variables (readlines text))))"
  shows "ends_line l"
proof -
  let ?kept = "filter (\<lambda>l. l \<noteq> [] \<and> \<not> is_declaration (py_strip l)) (readlines text)"
  from assms have "l \<in> set (butlast (yaml_lines variables (readlines text)))"
    unfolding cleaned_yaml_lines_def by (rule butlast_filter_member)
  then have "l \<in> set (map (substitute variables) (butlast ?kept))"
    by (simp only: yaml_lines_filter map_butlast)
  then obtain l0 where l0: "l0 \<in> set (butlast ?kept)" "l = substitute variables l0"
    by (auto simp only: set_map)
  from l0(1) have "l0 \<in> set (butlast (readlines text))"
    by (rule butlast_filter_member)
  then have "ends_line l0" by (rule readlines_butlast)
  then have "ends_line (substitute variables l0)" by (rule substitute_ends_line)
  with l0(2) show ?thesis by simp
qed

lemma cleaned_no_marker: "\<not> py_in ''{{'' (cleaned_yaml variables text)"
proof -
  let ?ls = "cleaned_yaml_lines (yaml_lines variables (readlines text))"
  have 1: "\<forall>l \<in> set ?ls. \<not> py_in ''{{'' l" by (simp add: cleaned_yaml_lines_def)
  have 2: "\<forall>l \<in> set (butlast ?ls). ends_line l"
  proof
    fix l assume "l \<in> set (butlast ?ls)"
    then show "ends_line l" by (rule cleaned_lines_end)
  qed
  have "\<not> py_in ''{{'' (concat ?ls)" using 1 2 by (rule concat_no_marker)
  then show ?thesis by (simp add: cleaned_yaml_def py_join_empty)
qed

lemma member_sublist_concat: "l \<in> set ls \<Longrightarrow> sublist l (concat ls)"
proof -
  assume "l \<in> set ls"
  then obtain ys zs where "ls = ys @ l # zs" by (auto dest: split_list)
  then have "concat ls = concat ys @ l @ concat zs" by simp
  then show ?thesis unfolding sublist_def by blast
qed

lemma readlines_no_marker:
  assumes "\<not> py_in ''{{'' t" "l \<in> set (readlines t)"
  shows "\<not> py_in ''{{'' l"
proof
  assume "py_in ''{{'' l"
  then have "sublist ''{{'' l" by (simp only: py_in_sublist)
  moreover from assms(2) have "sublist l (concat (readlines t))" by (rule member_sublist_concat)
  ultimately have "sublist ''{{'' t" unfolding readlines_concat by (rule sublist_order.order_trans)
  with assms(1) show False by (simp add: py_in_sublist)
qed

lemma substitute_no_marker: "\<not> py_in ''{{'' l \<Longrightarrow> substitute variables l = l"
  by (simp add: substitute_def)

lemma length_concat_filter: "length (concat (filter P xs)) \<le> length (concat xs)"
  by (induction xs) auto

lemma concat_filter_eq:
  assumes "[] \<notin> set xs"
  shows "concat (filter P xs) = concat xs \<longleftrightarrow> (\<forall>x \<in> set xs. P x)"
  using assms
proof (induction xs)
  case Nil
  show ?case by simp
next
  case (Cons x xs)
  then have x: "x \<noteq> []" and xs: "[] \<notin> set xs" by auto
  show ?case
  proof (cases "P x")
    case True
    with Cons.IH [OF xs] show ?thesis by simp
  next
    case False
    have "length (concat (filter P xs)) \<le> length (concat xs)" by (rule length_concat_filter)
    with x have "length (concat (filter P xs)) < length (x @ concat xs)" by (cases x) auto
    then have "concat (filter P xs) \<noteq> x @ concat xs" by auto
    with False show ?thesis by simp
  qed
qed

lemma cleaned_again:
  assumes "\<not> py_in ''{{'' t"
  shows "cleaned_yaml variables t =
    concat (filter (\<lambda>l. \<not> is_declaration (py_strip l)) (readlines t))"
proof -
  let ?K = "\<lambda>l. l \<noteq> [] \<and> \<not> is_declaration (py_strip l)"
  have n: "\<And>l. l \<in> set (readlines t) \<Longrightarrow> \<not> py_in ''{{'' l"
    using assms by (rule readlines_no_marker)
  have "yaml_lines variables (readlines t) = map (substitute variables) (filter ?K (readlines t))"
    by (rule yaml_lines_filter)
  also have "\<dots> = filter ?K (readlines t)"
    by (rule map_idI) (simp add: substitute_no_marker n)
  finally have y: "yaml_lines variables (readlines t) = filter ?K (readlines t)" .
  have "cleaned_yaml_lines (filter ?K (readlines t)) = filter ?K (readlines t)"
    unfolding cleaned_yaml_lines_def by (rule filter_True) (simp add: n)
  moreover have "filter ?K (readlines t) = filter (\<lambda>l. \<not> is_declaration (py_strip l)) (readlines t)"
    by (rule filter_cong) (use readlines_nonempty in auto)
  ultimately show ?thesis by (simp add: cleaned_yaml_def py_join_empty y)
qed

text \<open>
  Claim C5 as stated fails: a substituted value can turn a line into a declaration
  line, which a second pass drops. Here the variable \<^verbatim>\<open>a\<close> holds \<^verbatim>\<open>{%\<close>.
\<close>

lemma second_pass_variables:
  "get_variables (''{% set a = {% %}'' @ [CHR 0x0A] @ ''{{ a }} set x = 1 %}'' @ [CHR 0x0A]) = [(''a'', ''{%'')]"
  by code_simp

lemma second_pass_first:
  "cleaned_yaml [(''a'', ''{%'')] (''{% set a = {% %}'' @ [CHR 0x0A] @ ''{{ a }} set x = 1 %}'' @ [CHR 0x0A])
    = ''{% set x = 1 %}'' @ [CHR 0x0A]"
  by code_simp

lemma second_pass_second:
  "cleaned_yaml [(''a'', ''{%'')] (''{% set x = 1 %}'' @ [CHR 0x0A]) = []"
  by code_simp

theorem second_pass_drops_line:
  "get_variables (''{% set a = {% %}'' @ [CHR 0x0A] @ ''{{ a }} set x = 1 %}'' @ [CHR 0x0A]) =
     [(''a'', ''{%'')] \<and>
   cleaned_yaml [(''a'', ''{%'')]
     (''{% set a = {% %}'' @ [CHR 0x0A] @ ''{{ a }} set x = 1 %}'' @ [CHR 0x0A]) =
     ''{% set x = 1 %}'' @ [CHR 0x0A] \<and>
   cleaned_yaml [(''a'', ''{%'')] (''{% set x = 1 %}'' @ [CHR 0x0A]) = []"
  using second_pass_variables second_pass_first second_pass_second by (intro conjI)

text \<open>
  Claim C5, amended. For every text and variable table the cleaned text contains no
  \<^verbatim>\<open>{{\<close>; resolving the cleaned text again gives it back exactly when none of its lines
  is a declaration line.
\<close>

theorem cleaned_yaml_marker_free:
  "\<not> py_in ''{{'' (cleaned_yaml variables text) \<and>
   (cleaned_yaml variables (cleaned_yaml variables text) = cleaned_yaml variables text \<longleftrightarrow>
     (\<forall>line \<in> set (readlines (cleaned_yaml variables text)). \<not> is_declaration (py_strip line)))"
proof
  show n: "\<not> py_in ''{{'' (cleaned_yaml variables text)" by (rule cleaned_no_marker)
  let ?t = "cleaned_yaml variables text"
  have "cleaned_yaml variables ?t = ?t \<longleftrightarrow>
      concat (filter (\<lambda>l. \<not> is_declaration (py_strip l)) (readlines ?t)) = concat (readlines ?t)"
    by (simp only: cleaned_again [OF n] readlines_concat)
  also have "\<dots> \<longleftrightarrow> (\<forall>line \<in> set (readlines ?t). \<not> is_declaration (py_strip line))"
    by (rule concat_filter_eq) (rule readlines_nonempty)
  finally show "cleaned_yaml variables ?t = ?t \<longleftrightarrow>
     (\<forall>line \<in> set (readlines ?t). \<not> is_declaration (py_strip line))" .
qed

theorem cleaned_yaml_marker_free_witness:
  "cleaned_yaml [(''version'', ''1.2.3'')] (''version: {{ version }}'' @ [CHR 0x0A]) =
     ''version: 1.2.3'' @ [CHR 0x0A] \<and>
   \<not> py_in ''{{'' (''version: 1.2.3'' @ [CHR 0x0A]) \<and>
   \<not> is_declaration (py_strip (''version: 1.2.3'' @ [CHR 0x0A])) \<and>
   cleaned_yaml [(''version'', ''1.2.3'')] (''version: 1.2.3'' @ [CHR 0x0A]) =
     ''version: 1.2.3'' @ [CHR 0x0A]"
proof -
  have 1: "cleaned_yaml [(''version'', ''1.2.3'')] (''version: {{ version }}'' @ [CHR 0x0A]) =
     ''version: 1.2.3'' @ [CHR 0x0A]"
    by code_simp
  have 2: "\<not> is_declaration (py_strip (''version: 1.2.3'' @ [CHR 0x0A]))"
    by code_simp
  have 3: "readlines (''version: 1.2.3'' @ [CHR 0x0A]) = [''version: 1.2.3'' @ [CHR 0x0A]]"
    by code_simp
  from cleaned_yaml_marker_free [of "[(''version'', ''1.2.3'')]" "''version: {{ version }}'' @ [CHR 0x0A]"]
  have "\<not> py_in ''{{'' (''version: 1.2.3'' @ [CHR 0x0A]) \<and>
     cleaned_yaml [(''version'', ''1.2.3'')] (''version: 1.2.3'' @ [CHR 0x0A]) =
     ''version: 1.2.3'' @ [CHR 0x0A]"
    unfolding 1 3 using 2 by simp
  with 1 2 show ?thesis by simp
qed

subsection \<open>Dropped lines\<close>

lemma replace_variable_untouched:
  assumes "\<not> py_in (reference (fst item)) line" "\<not> py_in (lower_reference (fst item)) line"
  shows "replace_variable line item = line"
  using assms by (cases item) (simp add: replace_variable_def py_replace_notin)

lemma substitute_untouched:
  assumes "\<forall>item \<in> set variables.
     \<not> py_in (reference (fst item)) line \<and> \<not> py_in (lower_reference (fst item)) line"
  shows "substitute variables line = line"
proof -
  from assms have "foldl replace_variable line variables = line"
    by (induction variables) (simp_all add: replace_variable_untouched)
  then show ?thesis by (simp add: substitute_def)
qed

lemma yaml_lines_append:
  "yaml_lines variables (xs @ ys) = yaml_lines variables xs @ yaml_lines variables ys"
  by (induction xs) simp_all

lemma cleaned_dropped:
  assumes "line = [] \<or> is_declaration (py_strip line) \<or> py_in ''{{'' (substitute variables line)"
  shows "cleaned_yaml_lines (yaml_lines variables (before @ line # after)) =
         cleaned_yaml_lines (yaml_lines variables (before @ after))"
  using assms by (auto simp: yaml_lines_append cleaned_yaml_lines_def)

text \<open>A line that still contains \<^verbatim>\<open>{{\<close> after substitution leaves no trace in the
  cleaned lines. In particular a line with \<^verbatim>\<open>{{\<close> in which no reference to a declared
  variable occurs, in either form (an undeclared variable, a filter other than
  \<^verbatim>\<open>lower\<close>), is left unchanged by substitution and then dropped.\<close>

lemma unresolved_lines_dropped:
  "(py_in ''{{'' (substitute variables line) \<longrightarrow>
      cleaned_yaml_lines (yaml_lines variables (before @ line # after)) =
      cleaned_yaml_lines (yaml_lines variables (before @ after))) \<and>
   (py_in ''{{'' line \<and>
    (\<forall>item \<in> set variables.
       \<not> py_in (reference (fst item)) line \<and>
       \<not> py_in (lower_reference (fst item)) line) \<longrightarrow>
      substitute variables line = line \<and>
      cleaned_yaml_lines (yaml_lines variables (before @ line # after)) =
      cleaned_yaml_lines (yaml_lines variables (before @ after)))"
proof (intro conjI impI)
  assume "py_in ''{{'' (substitute variables line)"
  then show "cleaned_yaml_lines (yaml_lines variables (before @ line # after)) =
      cleaned_yaml_lines (yaml_lines variables (before @ after))"
    by (intro cleaned_dropped) simp
next
  assume a: "py_in ''{{'' line \<and>
    (\<forall>item \<in> set variables.
       \<not> py_in (reference (fst item)) line \<and>
       \<not> py_in (lower_reference (fst item)) line)"
  then show s: "substitute variables line = line" by (intro substitute_untouched) simp
  with a show "cleaned_yaml_lines (yaml_lines variables (before @ line # after)) =
      cleaned_yaml_lines (yaml_lines variables (before @ after))"
    by (intro cleaned_dropped) simp
qed

lemma unsupported_filter_dropped:
  "cleaned_yaml_lines (yaml_lines [(''version'', ''1.0'')]
       [''a: 1'', ''b: {{ name|upper }}'', ''v: {{ version }}'']) = [''a: 1'', ''v: 1.0'']"
  by code_simp

text \<open>
  Claim C2 (the code departs from it). The cleanup of lines 309 to 313, which its
  comment gives the task of removing the template lines that would make the YAML load
  fail, tests for \<^verbatim>\<open>{{\<close> only. The lines of a conditional or of a loop
  (\<^verbatim>\<open>{% if ... %}\<close>, \<^verbatim>\<open>{% endif %}\<close>) hold neither \<^verbatim>\<open>{{\<close> nor \<^verbatim>\<open>=\<close>: they are
  not dropped, and the text goes to the YAML loader with them, unchanged.
\<close>

theorem conditional_lines_kept:
  "cleaned_yaml
     (get_variables (''{% if win %}'' @ [CHR 0x0A] @ ''foo: 1'' @ [CHR 0x0A] @ ''{% endif %}'' @ [CHR 0x0A]))
     (''{% if win %}'' @ [CHR 0x0A] @ ''foo: 1'' @ [CHR 0x0A] @ ''{% endif %}'' @ [CHR 0x0A]) =
   ''{% if win %}'' @ [CHR 0x0A] @ ''foo: 1'' @ [CHR 0x0A] @ ''{% endif %}'' @ [CHR 0x0A] \<and>
   get_meta_yaml_data saneyaml_load
     (''{% if win %}'' @ [CHR 0x0A] @ ''foo: 1'' @ [CHR 0x0A] @ ''{% endif %}'' @ [CHR 0x0A]) =
   saneyaml_load
     (''{% if win %}'' @ [CHR 0x0A] @ ''foo: 1'' @ [CHR 0x0A] @ ''{% endif %}'' @ [CHR 0x0A])"
proof -
  have "cleaned_yaml
     (get_variables (''{% if win %}'' @ [CHR 0x0A] @ ''foo: 1'' @ [CHR 0x0A] @ ''{% endif %}'' @ [CHR 0x0A]))
     (''{% if win %}'' @ [CHR 0x0A] @ ''foo: 1'' @ [CHR 0x0A] @ ''{% endif %}'' @ [CHR 0x0A]) =
   ''{% if win %}'' @ [CHR 0x0A] @ ''foo: 1'' @ [CHR 0x0A] @ ''{% endif %}'' @ [CHR 0x0A]"
    by code_simp
  then show ?thesis by (simp add: get_meta_yaml_data_def)
qed

text \<open>A loop with a filter in its body loses the body line and keeps its frame.\<close>

lemma loop_frame_kept:
  "cleaned_yaml []
     (''{% for p in pythons %}'' @ [CHR 0x0A] @ ''  - python {{ p }}'' @ [CHR 0x0A] @
      ''{% endfor %}'' @ [CHR 0x0A]) =
   ''{% for p in pythons %}'' @ [CHR 0x0A] @ ''{% endfor %}'' @ [CHR 0x0A]"
  by code_simp

subsection \<open>Variable declarations\<close>

text \<open>
  Claim C4 (the code departs from it). The value stored is \<^verbatim>\<open>parts[-1]\<close>, the text
  after the last \<^verbatim>\<open>=\<close> of the line, not the text after the first: a declared value
  that contains \<^verbatim>\<open>=\<close> loses everything up to its last \<^verbatim>\<open>=\<close>.
\<close>

theorem value_after_last_assignment:
  "get_variables (''{% set url = '' @ [CHR 0x22] @ ''http://x/?a=b'' @ [CHR 0x22] @ '' %}'' @ [CHR 0x0A]) =
     [(''url'', ''b'')]"
  by code_simp

text \<open>Only the double quote is stripped from the value. The declaration of the
  function's docstring gives the entry the docstring describes.\<close>

lemma single_quotes_kept:
  "get_variables (''{% set version = '' @ [CHR 0x27] @ ''1.0'' @ [CHR 0x27] @ '' %}'' @ [CHR 0x0A]) =
     [(''version'', [CHR 0x27] @ ''1.0'' @ [CHR 0x27])]"
  by code_simp

lemma docstring_declaration:
  "get_variables (''{% set version = '' @ [CHR 0x22] @ ''0.45.0'' @ [CHR 0x22] @ '' %}'' @ [CHR 0x0A]) =
     [(''version'', ''0.45.0'')]"
  by code_simp

text \<open>A declaration with one \<^verbatim>\<open>=\<close> is cut at it; and declaration lines with distinct
  names give one entry each.\<close>

lemma single_assignment:
  assumes "declaration_body line = name @ ''='' @ val" "CHR ''='' \<notin> set name" "CHR ''='' \<notin> set val"
  shows "declare_variable line result =
           AList.update (py_strip name) (strip_chars [CHR 0x22] (py_strip val)) result"
proof -
  from assms(2) have "split_at ''='' (name @ ''='' @ val) = Some (name, val)"
    using split_at_char [of "CHR ''=''" name "[]" val] by simp
  moreover from assms(3) have "py_split ''='' val = [val]"
    by (simp add: py_split_notin py_in_char)
  ultimately have "py_split ''='' (name @ ''='' @ val) = [name, val]"
    by (subst py_split.simps) (simp del: split_at.simps)
  with assms(1) show ?thesis by (simp add: declare_variable_def)
qed

lemma declare_variable_keys:
  "map fst (declare_variable (py_strip line) result) =
     (if declared_name line \<in> set (map fst result) then map fst result
      else map fst result @ [declared_name line])"
  by (simp add: declare_variable_def declared_name_def Let_def update_keys)

lemma get_variables_loop_keys:
  "distinct (map fst result @
      map declared_name (filter (\<lambda>l. l \<noteq> [] \<and> is_declaration (py_strip l)) lines)) \<Longrightarrow>
   map fst (get_variables_loop result lines) =
     map fst result @ map declared_name (filter (\<lambda>l. l \<noteq> [] \<and> is_declaration (py_strip l)) lines)"
proof (induction lines arbitrary: result)
  case Nil
  show ?case by simp
next
  case (Cons line lines)
  show ?case
  proof (cases "line \<noteq> [] \<and> is_declaration (py_strip line)")
    case False
    with Cons show ?thesis by auto
  next
    case True
    let ?r = "declare_variable (py_strip line) result"
    from True Cons.prems have new: "declared_name line \<notin> set (map fst result)" by auto
    then have k: "map fst ?r = map fst result @ [declared_name line]"
      by (simp only: declare_variable_keys if_False)
    from True Cons.prems have "distinct (map fst ?r @
      map declared_name (filter (\<lambda>l. l \<noteq> [] \<and> is_declaration (py_strip l)) lines))"
      unfolding k by simp
    from Cons.IH [OF this] True k show ?thesis by simp
  qed
qed

lemma distinct_declarations_counted:
  assumes "distinct (map declared_name
     (filter (\<lambda>l. is_declaration (py_strip l)) (readlines text)))"
  shows "length (get_variables text) =
     length (filter (\<lambda>l. is_declaration (py_strip l)) (readlines text))"
proof -
  have f: "filter (\<lambda>l. l \<noteq> [] \<and> is_declaration (py_strip l)) (readlines text) =
      filter (\<lambda>l. is_declaration (py_strip l)) (readlines text)"
    by (rule filter_cong) (use readlines_nonempty in auto)
  from assms have "map fst (get_variables_loop [] (readlines text)) =
      map declared_name (filter (\<lambda>l. is_declaration (py_strip l)) (readlines text))"
    using get_variables_loop_keys [of "[]" "readlines text"] unfolding f by simp
  then have "length (map fst (get_variables text)) =
      length (map declared_name (filter (\<lambda>l. is_declaration (py_strip l)) (readlines text)))"
    by (simp only: get_variables_def)
  then show ?thesis by simp
qed

end
